theory Spec2Isabelle
  imports Complex_Main "HOL-Library.Word"
begin

unbundle bit_operations_syntax

section \<open>Data model\<close>

text \<open>
  The file \<^verbatim>\<open>src/gr/polynomial.c\<close> makes "polynomials over a base ring" a ring of the
  generic-ring framework. Every function of the file receives pointers: to contexts, to
  polynomials, to elements of other rings. The model keeps them as addresses into a
  machine state, so that the pointer comparisons of the source (\<^verbatim>\<open>x_ctx == ctx\<close>,
  \<^verbatim>\<open>res == y\<close>) are comparisons of addresses.
\<close>

type_synonym addr = nat
type_synonym slong = "64 word"
type_synonym ulong = "64 word"

text \<open>A status is a C \<^verbatim>\<open>int\<close>; the source accumulates statuses with \<^verbatim>\<open>|=\<close>.\<close>

type_synonym status = int

text \<open>
  Modelled from the spec: the status codes \<^verbatim>\<open>GR_SUCCESS\<close>, \<^verbatim>\<open>GR_DOMAIN\<close> and \<^verbatim>\<open>GR_UNABLE\<close>
  are macros of \<^verbatim>\<open>gr.h\<close>, outside \<^verbatim>\<open>polynomial.c\<close>: integer codes that are joined by
  bitwise OR, Success being the neutral one.
\<close>

definition GR_SUCCESS :: status where "GR_SUCCESS = 0"
definition GR_DOMAIN :: status where "GR_DOMAIN = 1"
definition GR_UNABLE :: status where "GR_UNABLE = 2"

datatype truth_t = T_TRUE | T_FALSE | T_UNKNOWN

definition WORD_MAX :: slong where
  \<comment> \<open>Modelled from the spec: \<^verbatim>\<open>WORD_MAX\<close> is a macro of \<^verbatim>\<open>flint.h\<close>, outside
      \<^verbatim>\<open>polynomial.c\<close>: the largest signed machine integer, which as a degree limit means
      that no ceiling is set.\<close>
  "WORD_MAX = 0x7FFFFFFFFFFFFFFF"

datatype ring_kind =
  GR_CTX_GR_POLY | GR_CTX_FMPZ_POLY | GR_CTX_FMPQ_POLY | GR_CTX_GR_VEC | GR_CTX_OTHER nat

text \<open>
  The generator name is a \<^verbatim>\<open>char *\<close> that either is the static string \<^verbatim>\<open>default_var\<close>
  or points to a heap buffer owned by the context. A C string is modelled by the
  characters before its terminating NUL.
\<close>

datatype char_ptr = Static_x | NULL | Buf string

definition default_var :: char_ptr where "default_var = Static_x"

fun c_str :: "char_ptr \<Rightarrow> string" where
  "c_str Static_x = ''x''"
| "c_str NULL = []"
| "c_str (Buf s) = s"

definition strcmp0 :: "char_ptr \<Rightarrow> char_ptr \<Rightarrow> bool" where
  \<comment> \<open>\<^verbatim>\<open>!strcmp(a, b)\<close>\<close>
  "strcmp0 a b \<longleftrightarrow> c_str a = c_str b"

text \<open>
  The context structure with the data the file reads through \<^verbatim>\<open>POLYNOMIAL_CTX\<close>
  (base ring, degree limit, generator name) and through \<^verbatim>\<open>VECTOR_CTX\<close> (the base ring
  of a vector context, kept in the same field).
\<close>

record gr_ctx_struct =
  which_ring :: ring_kind
  base_ring :: addr
  degree_limit :: slong
  var :: char_ptr

text \<open>
  An object of the store is a single ring element or a sequence of elements:
  \<^verbatim>\<open>gr_poly_struct\<close> (coefficients, constant term first) and \<^verbatim>\<open>gr_vec_struct\<close> (entries)
  both are a pointer to allocated element slots with a length. \<open>Seq slots n\<close> holds the
  allocated slots and the \<^verbatim>\<open>length\<close> field; the value of the polynomial is the first
  \<open>n\<close> slots. Lengths are counts of elements held in memory, so the sum of two of them is
  taken without wrap-around.
\<close>

datatype 'a obj = Scalar 'a | Seq "'a list" nat

fun slots :: "'a obj \<Rightarrow> 'a list" where
  "slots (Seq sl n) = sl"
| "slots (Scalar c) = []"

fun len :: "'a obj \<Rightarrow> nat" where
  "len (Seq sl n) = n"
| "len (Scalar c) = 0"

definition coeffs :: "'a obj \<Rightarrow> 'a list" where
  "coeffs v = take (len v) (slots v)"

definition mk_poly :: "'a list \<Rightarrow> 'a obj" where
  \<comment> \<open>the polynomial object holding exactly the coefficients \<open>cs\<close>\<close>
  "mk_poly cs = Seq cs (length cs)"

record 'a machine =
  ctx_at :: "addr \<Rightarrow> gr_ctx_struct"
  obj_at :: "addr \<Rightarrow> 'a obj"
  sp :: addr

text \<open>A pointer to one element: an object of its own, or a coefficient slot of a sequence.\<close>

datatype ptr = Obj addr | Coeff addr nat

definition store :: "'a machine \<Rightarrow> addr \<Rightarrow> 'a obj \<Rightarrow> 'a machine" where
  "store s a v = s\<lparr>obj_at := (obj_at s)(a := v)\<rparr>"

definition poly_length :: "'a machine \<Rightarrow> addr \<Rightarrow> nat" where
  \<comment> \<open>\<^verbatim>\<open>poly->length\<close>\<close>
  "poly_length s p = len (obj_at s p)"

definition POLYNOMIAL_CTX :: "'a machine \<Rightarrow> addr \<Rightarrow> gr_ctx_struct" where
  "POLYNOMIAL_CTX s ctx = ctx_at s ctx"

definition POLYNOMIAL_ELEM_CTX :: "'a machine \<Rightarrow> addr \<Rightarrow> addr" where
  "POLYNOMIAL_ELEM_CTX s ctx = base_ring (POLYNOMIAL_CTX s ctx)"

definition VECTOR_CTX :: "'a machine \<Rightarrow> addr \<Rightarrow> gr_ctx_struct" where
  "VECTOR_CTX s ctx = ctx_at s ctx"

text \<open>
  Local variables (\<^verbatim>\<open>gr_poly_t t;\<close>, a temporary element) live above the stack mark
  \<^term>\<open>sp s\<close>; every address below it may hold a live object of the caller.
\<close>

definition local_var :: "'a machine \<Rightarrow> addr \<times> 'a machine" where
  "local_var s = (sp s, s\<lparr>sp := Suc (sp s)\<rparr>)"

definition end_local :: "'a machine \<Rightarrow> 'a machine" where
  "end_local s = s\<lparr>sp := sp s - 1\<rparr>"

section \<open>The generic-ring library underneath\<close>

datatype native = UI ulong | SI slong | FMPZ int | FMPQ rat

datatype arith = ADD | SUB | MUL

datatype gr_method =
    GR_METHOD_CTX_IS_RING
  | GR_METHOD_CTX_IS_COMMUTATIVE_RING
  | GR_METHOD_CTX_IS_INTEGRAL_DOMAIN
  | GR_METHOD_CTX_IS_UNIQUE_FACTORIZATION_DOMAIN
  | GR_METHOD_CTX_IS_FIELD
  | GR_METHOD_CTX_IS_RATIONAL_VECTOR_SPACE
  | GR_METHOD_CTX_IS_REAL_VECTOR_SPACE
  | GR_METHOD_CTX_IS_COMPLEX_VECTOR_SPACE
  | GR_METHOD_CTX_IS_THREADSAFE

text \<open>
  The functions \<^verbatim>\<open>gr_*\<close> and \<^verbatim>\<open>gr_poly_*\<close> that the file calls belong to other files
  (the base rings and the coefficient-array layer). They are parameters of the model: a
  library \<open>L\<close> gives, for each of them, the status it returns and the value it leaves in
  the object its result pointer names. It receives the whole state and the addresses it
  was called with, so it may behave differently when arguments alias. What a library
  function writes is its result argument only: the other pointers are \<^verbatim>\<open>const\<close>.
  The initial value of an element and the zero test of an element depend on the element
  and on its ring only.
\<close>

record 'a gr_lib =
  ctx_predicate_impl :: "gr_method \<Rightarrow> 'a machine \<Rightarrow> addr \<Rightarrow> truth_t"
  init_impl :: "addr \<Rightarrow> 'a"
  is_zero_impl :: "'a \<Rightarrow> addr \<Rightarrow> truth_t"
  set_impl :: "'a machine \<Rightarrow> ptr \<Rightarrow> ptr \<Rightarrow> addr \<Rightarrow> status \<times> 'a"
  set_other_impl :: "'a machine \<Rightarrow> ptr \<Rightarrow> ptr \<Rightarrow> addr \<Rightarrow> addr \<Rightarrow> status \<times> 'a"
  poly_set_impl :: "'a machine \<Rightarrow> addr \<Rightarrow> addr \<Rightarrow> addr \<Rightarrow> status \<times> 'a list"
  poly_set_scalar_impl :: "'a machine \<Rightarrow> addr \<Rightarrow> ptr \<Rightarrow> addr \<Rightarrow> status \<times> 'a list"
  poly_set_gr_poly_other_impl ::
    "'a machine \<Rightarrow> addr \<Rightarrow> addr \<Rightarrow> addr \<Rightarrow> addr \<Rightarrow> status \<times> 'a list"
  poly_set_fmpz_poly_impl :: "'a machine \<Rightarrow> addr \<Rightarrow> addr \<Rightarrow> addr \<Rightarrow> status \<times> 'a list"
  poly_set_fmpq_poly_impl :: "'a machine \<Rightarrow> addr \<Rightarrow> addr \<Rightarrow> addr \<Rightarrow> status \<times> 'a list"
  poly_set_native_impl :: "'a machine \<Rightarrow> addr \<Rightarrow> native \<Rightarrow> addr \<Rightarrow> status \<times> 'a list"
  poly_arith_impl ::
    "arith \<Rightarrow> 'a machine \<Rightarrow> addr \<Rightarrow> addr \<Rightarrow> addr \<Rightarrow> addr \<Rightarrow> status \<times> 'a list"
  poly_mul_scalar_impl :: "'a machine \<Rightarrow> addr \<Rightarrow> addr \<Rightarrow> ptr \<Rightarrow> addr \<Rightarrow> status \<times> 'a list"
  poly_scalar_mul_impl :: "'a machine \<Rightarrow> addr \<Rightarrow> ptr \<Rightarrow> addr \<Rightarrow> addr \<Rightarrow> status \<times> 'a list"
  poly_div_scalar_impl :: "'a machine \<Rightarrow> addr \<Rightarrow> addr \<Rightarrow> ptr \<Rightarrow> addr \<Rightarrow> status \<times> 'a list"
  poly_divrem_impl ::
    "'a machine \<Rightarrow> addr \<Rightarrow> addr \<Rightarrow> addr \<Rightarrow> addr \<Rightarrow> addr \<Rightarrow> status \<times> 'a list \<times> 'a list"
  poly_is_zero_impl :: "'a machine \<Rightarrow> addr \<Rightarrow> addr \<Rightarrow> truth_t"
  poly_pow_fmpz_impl :: "'a machine \<Rightarrow> addr \<Rightarrow> addr \<Rightarrow> int \<Rightarrow> addr \<Rightarrow> status \<times> 'a list"

definition ret_poly :: "'a machine \<Rightarrow> addr \<Rightarrow> status \<times> 'a list \<Rightarrow> status \<times> 'a machine" where
  \<comment> \<open>the library call leaves its value in the polynomial \<open>res\<close> and returns its status\<close>
  "ret_poly s res r = (fst r, store s res (mk_poly (snd r)))"

definition store_elem :: "'a machine \<Rightarrow> ptr \<Rightarrow> 'a \<Rightarrow> 'a machine" where
  \<comment> \<open>writing one element through a pointer\<close>
  "store_elem s p v =
     (case p of
        Obj a \<Rightarrow> store s a (Scalar v)
      | Coeff a i \<Rightarrow> store s a (Seq ((slots (obj_at s a))[i := v]) (len (obj_at s a))))"

definition ret_elem :: "'a machine \<Rightarrow> ptr \<Rightarrow> status \<times> 'a \<Rightarrow> status \<times> 'a machine" where
  "ret_elem s res r = (fst r, store_elem s res (snd r))"

subsection \<open>Context predicates of the base ring\<close>

definition gr_ctx_is_ring :: "'a gr_lib \<Rightarrow> 'a machine \<Rightarrow> addr \<Rightarrow> truth_t" where
  "gr_ctx_is_ring L s ctx = ctx_predicate_impl L GR_METHOD_CTX_IS_RING s ctx"

definition gr_ctx_is_commutative_ring :: "'a gr_lib \<Rightarrow> 'a machine \<Rightarrow> addr \<Rightarrow> truth_t" where
  "gr_ctx_is_commutative_ring L s ctx = ctx_predicate_impl L GR_METHOD_CTX_IS_COMMUTATIVE_RING s ctx"

definition gr_ctx_is_integral_domain :: "'a gr_lib \<Rightarrow> 'a machine \<Rightarrow> addr \<Rightarrow> truth_t" where
  "gr_ctx_is_integral_domain L s ctx = ctx_predicate_impl L GR_METHOD_CTX_IS_INTEGRAL_DOMAIN s ctx"

definition gr_ctx_is_unique_factorization_domain ::
  "'a gr_lib \<Rightarrow> 'a machine \<Rightarrow> addr \<Rightarrow> truth_t" where
  "gr_ctx_is_unique_factorization_domain L s ctx =
     ctx_predicate_impl L GR_METHOD_CTX_IS_UNIQUE_FACTORIZATION_DOMAIN s ctx"

definition gr_ctx_is_rational_vector_space :: "'a gr_lib \<Rightarrow> 'a machine \<Rightarrow> addr \<Rightarrow> truth_t" where
  "gr_ctx_is_rational_vector_space L s ctx =
     ctx_predicate_impl L GR_METHOD_CTX_IS_RATIONAL_VECTOR_SPACE s ctx"

definition gr_ctx_is_real_vector_space :: "'a gr_lib \<Rightarrow> 'a machine \<Rightarrow> addr \<Rightarrow> truth_t" where
  "gr_ctx_is_real_vector_space L s ctx =
     ctx_predicate_impl L GR_METHOD_CTX_IS_REAL_VECTOR_SPACE s ctx"

definition gr_ctx_is_complex_vector_space :: "'a gr_lib \<Rightarrow> 'a machine \<Rightarrow> addr \<Rightarrow> truth_t" where
  "gr_ctx_is_complex_vector_space L s ctx =
     ctx_predicate_impl L GR_METHOD_CTX_IS_COMPLEX_VECTOR_SPACE s ctx"

definition gr_ctx_is_threadsafe :: "'a gr_lib \<Rightarrow> 'a machine \<Rightarrow> addr \<Rightarrow> truth_t" where
  "gr_ctx_is_threadsafe L s ctx = ctx_predicate_impl L GR_METHOD_CTX_IS_THREADSAFE s ctx"

definition gr_generic_ctx_predicate_false :: "'a gr_lib \<Rightarrow> 'a machine \<Rightarrow> addr \<Rightarrow> truth_t" where
  \<comment> \<open>Modelled from the spec: \<^verbatim>\<open>gr_generic_ctx_predicate_false\<close> is a function of
      \<^verbatim>\<open>gr_generic.h\<close>, outside \<^verbatim>\<open>polynomial.c\<close>: the predicate that is false for every
      context ("is-field, which is always false").\<close>
  "gr_generic_ctx_predicate_false L s ctx = T_FALSE"

subsection \<open>Elements and coefficient arrays\<close>

definition gr_set :: "'a gr_lib \<Rightarrow> 'a machine \<Rightarrow> ptr \<Rightarrow> ptr \<Rightarrow> addr \<Rightarrow> status \<times> 'a machine" where
  "gr_set L s res x ctx = ret_elem s res (set_impl L s res x ctx)"

definition gr_set_other ::
  "'a gr_lib \<Rightarrow> 'a machine \<Rightarrow> ptr \<Rightarrow> ptr \<Rightarrow> addr \<Rightarrow> addr \<Rightarrow> status \<times> 'a machine" where
  "gr_set_other L s res x x_ctx ctx = ret_elem s res (set_other_impl L s res x x_ctx ctx)"

definition GR_TMP_INIT :: "'a gr_lib \<Rightarrow> 'a machine \<Rightarrow> addr \<Rightarrow> addr \<times> 'a machine" where
  \<comment> \<open>a temporary element, initialised by the base ring\<close>
  "GR_TMP_INIT L s ctx = (let (t, s1) = local_var s in (t, store s1 t (Scalar (init_impl L ctx))))"

definition GR_TMP_CLEAR :: "'a machine \<Rightarrow> addr \<Rightarrow> addr \<Rightarrow> 'a machine" where
  "GR_TMP_CLEAR s t ctx = end_local s"

text \<open>
  The coefficient-array primitives \<^verbatim>\<open>gr_poly_init\<close>, \<^verbatim>\<open>gr_poly_clear\<close>,
  \<^verbatim>\<open>gr_poly_fit_length\<close>, \<^verbatim>\<open>_gr_poly_set_length\<close> and \<^verbatim>\<open>_gr_poly_normalise\<close> belong to
  \<^verbatim>\<open>gr_poly.h\<close>, outside \<^verbatim>\<open>polynomial.c\<close>. The spec describes them as a growable buffer
  with length and capacity, created by a zero-initialising constructor, and a
  normalisation that strips the trailing coefficients the base ring proves zero and keeps
  one it cannot prove zero.
\<close>

definition gr_poly_init :: "'a machine \<Rightarrow> addr \<Rightarrow> addr \<Rightarrow> 'a machine" where
  \<comment> \<open>Modelled from the spec: \<^verbatim>\<open>gr_poly_init\<close>, the zero-initialising constructor: no slot,
      length 0.\<close>
  "gr_poly_init s res ctx = store s res (Seq [] 0)"

definition gr_poly_clear :: "'a machine \<Rightarrow> addr \<Rightarrow> addr \<Rightarrow> 'a machine" where
  \<comment> \<open>Modelled from the spec: \<^verbatim>\<open>gr_poly_clear\<close>, the explicit clear: the coefficient storage
      is released.\<close>
  "gr_poly_clear s res ctx = store s res (Seq [] 0)"

definition gr_poly_fit_length :: "'a gr_lib \<Rightarrow> 'a machine \<Rightarrow> addr \<Rightarrow> nat \<Rightarrow> addr \<Rightarrow> 'a machine" where
  \<comment> \<open>Modelled from the spec: \<^verbatim>\<open>gr_poly_fit_length\<close>, growing the buffer to a capacity of at
      least \<open>n\<close> slots; the new slots are initialised elements, the length stays.\<close>
  "gr_poly_fit_length L s res n ctx =
     (let sl = slots (obj_at s res) in
      if n > length sl
      then store s res (Seq (sl @ replicate (n - length sl) (init_impl L ctx)) (len (obj_at s res)))
      else s)"

definition gr_poly_set_length :: "'a machine \<Rightarrow> addr \<Rightarrow> nat \<Rightarrow> addr \<Rightarrow> 'a machine" where
  \<comment> \<open>Modelled from the spec: \<^verbatim>\<open>_gr_poly_set_length\<close>, setting the length field within the
      capacity.\<close>
  "gr_poly_set_length s res n ctx = store s res (Seq (slots (obj_at s res)) n)"

primrec normalise_loop :: "('a \<Rightarrow> truth_t) \<Rightarrow> 'a list \<Rightarrow> nat \<Rightarrow> nat" where
  \<comment> \<open>Modelled from the spec: the new length, found from the top coefficient downwards; a
      coefficient is dropped only when its zero test is \<open>T_TRUE\<close>.\<close>
  "normalise_loop isz sl 0 = 0"
| "normalise_loop isz sl (Suc i) = (if isz (sl ! i) = T_TRUE then normalise_loop isz sl i else Suc i)"

definition gr_poly_normalise :: "'a gr_lib \<Rightarrow> 'a machine \<Rightarrow> addr \<Rightarrow> addr \<Rightarrow> 'a machine" where
  \<comment> \<open>Modelled from the spec: \<^verbatim>\<open>_gr_poly_normalise\<close>, stripping the trailing coefficients that
      the base ring proves zero.\<close>
  "gr_poly_normalise L s res ctx =
     store s res (Seq (slots (obj_at s res))
       (normalise_loop (\<lambda>c. is_zero_impl L c ctx) (slots (obj_at s res)) (len (obj_at s res))))"

subsection \<open>Polynomial functions of the library\<close>

definition gr_poly_set ::
  "'a gr_lib \<Rightarrow> 'a machine \<Rightarrow> addr \<Rightarrow> addr \<Rightarrow> addr \<Rightarrow> status \<times> 'a machine" where
  "gr_poly_set L s res src ctx = ret_poly s res (poly_set_impl L s res src ctx)"

definition gr_poly_set_scalar ::
  "'a gr_lib \<Rightarrow> 'a machine \<Rightarrow> addr \<Rightarrow> ptr \<Rightarrow> addr \<Rightarrow> status \<times> 'a machine" where
  "gr_poly_set_scalar L s res x ctx = ret_poly s res (poly_set_scalar_impl L s res x ctx)"

definition gr_poly_set_gr_poly_other ::
  "'a gr_lib \<Rightarrow> 'a machine \<Rightarrow> addr \<Rightarrow> addr \<Rightarrow> addr \<Rightarrow> addr \<Rightarrow> status \<times> 'a machine" where
  "gr_poly_set_gr_poly_other L s res x x_ctx ctx =
     ret_poly s res (poly_set_gr_poly_other_impl L s res x x_ctx ctx)"

definition gr_poly_set_fmpz_poly ::
  "'a gr_lib \<Rightarrow> 'a machine \<Rightarrow> addr \<Rightarrow> addr \<Rightarrow> addr \<Rightarrow> status \<times> 'a machine" where
  "gr_poly_set_fmpz_poly L s res x ctx = ret_poly s res (poly_set_fmpz_poly_impl L s res x ctx)"

definition gr_poly_set_fmpq_poly ::
  "'a gr_lib \<Rightarrow> 'a machine \<Rightarrow> addr \<Rightarrow> addr \<Rightarrow> addr \<Rightarrow> status \<times> 'a machine" where
  "gr_poly_set_fmpq_poly L s res x ctx = ret_poly s res (poly_set_fmpq_poly_impl L s res x ctx)"

definition gr_poly_set_si ::
  "'a gr_lib \<Rightarrow> 'a machine \<Rightarrow> addr \<Rightarrow> slong \<Rightarrow> addr \<Rightarrow> status \<times> 'a machine" where
  "gr_poly_set_si L s res v ctx = ret_poly s res (poly_set_native_impl L s res (SI v) ctx)"

definition gr_poly_set_ui ::
  "'a gr_lib \<Rightarrow> 'a machine \<Rightarrow> addr \<Rightarrow> ulong \<Rightarrow> addr \<Rightarrow> status \<times> 'a machine" where
  "gr_poly_set_ui L s res v ctx = ret_poly s res (poly_set_native_impl L s res (UI v) ctx)"

definition gr_poly_set_fmpz ::
  "'a gr_lib \<Rightarrow> 'a machine \<Rightarrow> addr \<Rightarrow> int \<Rightarrow> addr \<Rightarrow> status \<times> 'a machine" where
  "gr_poly_set_fmpz L s res v ctx = ret_poly s res (poly_set_native_impl L s res (FMPZ v) ctx)"

definition gr_poly_set_fmpq ::
  "'a gr_lib \<Rightarrow> 'a machine \<Rightarrow> addr \<Rightarrow> rat \<Rightarrow> addr \<Rightarrow> status \<times> 'a machine" where
  "gr_poly_set_fmpq L s res v ctx = ret_poly s res (poly_set_native_impl L s res (FMPQ v) ctx)"

definition gr_poly_add ::
  "'a gr_lib \<Rightarrow> 'a machine \<Rightarrow> addr \<Rightarrow> addr \<Rightarrow> addr \<Rightarrow> addr \<Rightarrow> status \<times> 'a machine" where
  "gr_poly_add L s res poly1 poly2 ctx = ret_poly s res (poly_arith_impl L ADD s res poly1 poly2 ctx)"

definition gr_poly_sub ::
  "'a gr_lib \<Rightarrow> 'a machine \<Rightarrow> addr \<Rightarrow> addr \<Rightarrow> addr \<Rightarrow> addr \<Rightarrow> status \<times> 'a machine" where
  "gr_poly_sub L s res poly1 poly2 ctx = ret_poly s res (poly_arith_impl L SUB s res poly1 poly2 ctx)"

definition gr_poly_mul ::
  "'a gr_lib \<Rightarrow> 'a machine \<Rightarrow> addr \<Rightarrow> addr \<Rightarrow> addr \<Rightarrow> addr \<Rightarrow> status \<times> 'a machine" where
  "gr_poly_mul L s res poly1 poly2 ctx = ret_poly s res (poly_arith_impl L MUL s res poly1 poly2 ctx)"

text \<open>
  The scalar operations \<^verbatim>\<open>gr_poly_add_ui\<close>, ..., \<^verbatim>\<open>gr_poly_mul_fmpq\<close> belong to
  \<^verbatim>\<open>gr_poly.h\<close>, outside \<^verbatim>\<open>polynomial.c\<close>. The spec says of them: "Scalar variants
  (polynomial with native-integer/rational/big-integer) are equivalent to treating the
  scalar as a degree-0 polynomial."
\<close>

definition gr_poly_set_native ::
  "'a gr_lib \<Rightarrow> 'a machine \<Rightarrow> addr \<Rightarrow> native \<Rightarrow> addr \<Rightarrow> status \<times> 'a machine" where
  \<comment> \<open>the library's conversion of a scalar, by kind of scalar\<close>
  "gr_poly_set_native L s res c ctx =
     (case c of
        UI v \<Rightarrow> gr_poly_set_ui L s res v ctx
      | SI v \<Rightarrow> gr_poly_set_si L s res v ctx
      | FMPZ v \<Rightarrow> gr_poly_set_fmpz L s res v ctx
      | FMPQ v \<Rightarrow> gr_poly_set_fmpq L s res v ctx)"

definition gr_poly_arith ::
  "'a gr_lib \<Rightarrow> arith \<Rightarrow> 'a machine \<Rightarrow> addr \<Rightarrow> addr \<Rightarrow> addr \<Rightarrow> addr \<Rightarrow> status \<times> 'a machine" where
  \<comment> \<open>the library's operation on two polynomials, by operation\<close>
  "gr_poly_arith L op s res poly1 poly2 ctx =
     (case op of
        ADD \<Rightarrow> gr_poly_add L s res poly1 poly2 ctx
      | SUB \<Rightarrow> gr_poly_sub L s res poly1 poly2 ctx
      | MUL \<Rightarrow> gr_poly_mul L s res poly1 poly2 ctx)"

definition gr_poly_arith_native ::
  "'a gr_lib \<Rightarrow> arith \<Rightarrow> 'a machine \<Rightarrow> addr \<Rightarrow> addr \<Rightarrow> native \<Rightarrow> addr \<Rightarrow> status \<times> 'a machine" where
  \<comment> \<open>Modelled from the spec: the scalar operations of \<^verbatim>\<open>gr_poly.h\<close>, outside \<^verbatim>\<open>polynomial.c\<close>.
      The scalar is treated as a polynomial of degree 0: a local polynomial is set from it
      and the library's operation on two polynomials is applied; a scalar that cannot be
      converted gives the conversion's status and leaves \<open>res\<close>.\<close>
  "gr_poly_arith_native L op s res poly c ctx =
     (let (t, s0) = local_var s;
          s1 = gr_poly_init s0 t ctx;
          (status, s2) = gr_poly_set_native L s1 t c ctx;
          (status, s3) = (if status = GR_SUCCESS then gr_poly_arith L op s2 res poly t ctx
                          else (status, s2));
          s4 = gr_poly_clear s3 t ctx
      in (status, end_local s4))"

definition gr_poly_add_ui ::
  "'a gr_lib \<Rightarrow> 'a machine \<Rightarrow> addr \<Rightarrow> addr \<Rightarrow> ulong \<Rightarrow> addr \<Rightarrow> status \<times> 'a machine" where
  \<comment> \<open>Modelled from the spec: \<^verbatim>\<open>gr_poly_add_ui\<close>, the scalar as a polynomial of degree 0.\<close>
  "gr_poly_add_ui L s res poly c ctx = gr_poly_arith_native L ADD s res poly (UI c) ctx"

definition gr_poly_add_si ::
  "'a gr_lib \<Rightarrow> 'a machine \<Rightarrow> addr \<Rightarrow> addr \<Rightarrow> slong \<Rightarrow> addr \<Rightarrow> status \<times> 'a machine" where
  \<comment> \<open>Modelled from the spec: \<^verbatim>\<open>gr_poly_add_si\<close>, the scalar as a polynomial of degree 0.\<close>
  "gr_poly_add_si L s res poly c ctx = gr_poly_arith_native L ADD s res poly (SI c) ctx"

definition gr_poly_add_fmpz ::
  "'a gr_lib \<Rightarrow> 'a machine \<Rightarrow> addr \<Rightarrow> addr \<Rightarrow> int \<Rightarrow> addr \<Rightarrow> status \<times> 'a machine" where
  \<comment> \<open>Modelled from the spec: \<^verbatim>\<open>gr_poly_add_fmpz\<close>, the scalar as a polynomial of degree 0.\<close>
  "gr_poly_add_fmpz L s res poly c ctx = gr_poly_arith_native L ADD s res poly (FMPZ c) ctx"

definition gr_poly_add_fmpq ::
  "'a gr_lib \<Rightarrow> 'a machine \<Rightarrow> addr \<Rightarrow> addr \<Rightarrow> rat \<Rightarrow> addr \<Rightarrow> status \<times> 'a machine" where
  \<comment> \<open>Modelled from the spec: \<^verbatim>\<open>gr_poly_add_fmpq\<close>, the scalar as a polynomial of degree 0.\<close>
  "gr_poly_add_fmpq L s res poly c ctx = gr_poly_arith_native L ADD s res poly (FMPQ c) ctx"

definition gr_poly_sub_ui ::
  "'a gr_lib \<Rightarrow> 'a machine \<Rightarrow> addr \<Rightarrow> addr \<Rightarrow> ulong \<Rightarrow> addr \<Rightarrow> status \<times> 'a machine" where
  \<comment> \<open>Modelled from the spec: \<^verbatim>\<open>gr_poly_sub_ui\<close>, the scalar as a polynomial of degree 0.\<close>
  "gr_poly_sub_ui L s res poly c ctx = gr_poly_arith_native L SUB s res poly (UI c) ctx"

definition gr_poly_sub_si ::
  "'a gr_lib \<Rightarrow> 'a machine \<Rightarrow> addr \<Rightarrow> addr \<Rightarrow> slong \<Rightarrow> addr \<Rightarrow> status \<times> 'a machine" where
  \<comment> \<open>Modelled from the spec: \<^verbatim>\<open>gr_poly_sub_si\<close>, the scalar as a polynomial of degree 0.\<close>
  "gr_poly_sub_si L s res poly c ctx = gr_poly_arith_native L SUB s res poly (SI c) ctx"

definition gr_poly_sub_fmpz ::
  "'a gr_lib \<Rightarrow> 'a machine \<Rightarrow> addr \<Rightarrow> addr \<Rightarrow> int \<Rightarrow> addr \<Rightarrow> status \<times> 'a machine" where
  \<comment> \<open>Modelled from the spec: \<^verbatim>\<open>gr_poly_sub_fmpz\<close>, the scalar as a polynomial of degree 0.\<close>
  "gr_poly_sub_fmpz L s res poly c ctx = gr_poly_arith_native L SUB s res poly (FMPZ c) ctx"

definition gr_poly_sub_fmpq ::
  "'a gr_lib \<Rightarrow> 'a machine \<Rightarrow> addr \<Rightarrow> addr \<Rightarrow> rat \<Rightarrow> addr \<Rightarrow> status \<times> 'a machine" where
  \<comment> \<open>Modelled from the spec: \<^verbatim>\<open>gr_poly_sub_fmpq\<close>, the scalar as a polynomial of degree 0.\<close>
  "gr_poly_sub_fmpq L s res poly c ctx = gr_poly_arith_native L SUB s res poly (FMPQ c) ctx"

definition gr_poly_mul_ui ::
  "'a gr_lib \<Rightarrow> 'a machine \<Rightarrow> addr \<Rightarrow> addr \<Rightarrow> ulong \<Rightarrow> addr \<Rightarrow> status \<times> 'a machine" where
  \<comment> \<open>Modelled from the spec: \<^verbatim>\<open>gr_poly_mul_ui\<close>, the scalar as a polynomial of degree 0.\<close>
  "gr_poly_mul_ui L s res poly c ctx = gr_poly_arith_native L MUL s res poly (UI c) ctx"

definition gr_poly_mul_si ::
  "'a gr_lib \<Rightarrow> 'a machine \<Rightarrow> addr \<Rightarrow> addr \<Rightarrow> slong \<Rightarrow> addr \<Rightarrow> status \<times> 'a machine" where
  \<comment> \<open>Modelled from the spec: \<^verbatim>\<open>gr_poly_mul_si\<close>, the scalar as a polynomial of degree 0.\<close>
  "gr_poly_mul_si L s res poly c ctx = gr_poly_arith_native L MUL s res poly (SI c) ctx"

definition gr_poly_mul_fmpz ::
  "'a gr_lib \<Rightarrow> 'a machine \<Rightarrow> addr \<Rightarrow> addr \<Rightarrow> int \<Rightarrow> addr \<Rightarrow> status \<times> 'a machine" where
  \<comment> \<open>Modelled from the spec: \<^verbatim>\<open>gr_poly_mul_fmpz\<close>, the scalar as a polynomial of degree 0.\<close>
  "gr_poly_mul_fmpz L s res poly c ctx = gr_poly_arith_native L MUL s res poly (FMPZ c) ctx"

definition gr_poly_mul_fmpq ::
  "'a gr_lib \<Rightarrow> 'a machine \<Rightarrow> addr \<Rightarrow> addr \<Rightarrow> rat \<Rightarrow> addr \<Rightarrow> status \<times> 'a machine" where
  \<comment> \<open>Modelled from the spec: \<^verbatim>\<open>gr_poly_mul_fmpq\<close>, the scalar as a polynomial of degree 0.\<close>
  "gr_poly_mul_fmpq L s res poly c ctx = gr_poly_arith_native L MUL s res poly (FMPQ c) ctx"

definition gr_poly_mul_scalar ::
  "'a gr_lib \<Rightarrow> 'a machine \<Rightarrow> addr \<Rightarrow> addr \<Rightarrow> ptr \<Rightarrow> addr \<Rightarrow> status \<times> 'a machine" where
  "gr_poly_mul_scalar L s res poly c ctx = ret_poly s res (poly_mul_scalar_impl L s res poly c ctx)"

definition gr_poly_scalar_mul ::
  "'a gr_lib \<Rightarrow> 'a machine \<Rightarrow> addr \<Rightarrow> ptr \<Rightarrow> addr \<Rightarrow> addr \<Rightarrow> status \<times> 'a machine" where
  "gr_poly_scalar_mul L s res c poly ctx = ret_poly s res (poly_scalar_mul_impl L s res c poly ctx)"

definition gr_poly_div_scalar ::
  "'a gr_lib \<Rightarrow> 'a machine \<Rightarrow> addr \<Rightarrow> addr \<Rightarrow> ptr \<Rightarrow> addr \<Rightarrow> status \<times> 'a machine" where
  "gr_poly_div_scalar L s res poly c ctx = ret_poly s res (poly_div_scalar_impl L s res poly c ctx)"

definition gr_poly_divrem ::
  "'a gr_lib \<Rightarrow> 'a machine \<Rightarrow> addr \<Rightarrow> addr \<Rightarrow> addr \<Rightarrow> addr \<Rightarrow> addr \<Rightarrow> status \<times> 'a machine" where
  \<comment> \<open>the quotient is left in \<open>Q\<close>, the remainder in \<open>R\<close>\<close>
  "gr_poly_divrem L s Q R A B ctx =
     (let (st, q, r) = poly_divrem_impl L s Q R A B ctx
      in (st, store (store s Q (mk_poly q)) R (mk_poly r)))"

definition gr_poly_is_zero :: "'a gr_lib \<Rightarrow> 'a machine \<Rightarrow> addr \<Rightarrow> addr \<Rightarrow> truth_t" where
  "gr_poly_is_zero L s poly ctx = poly_is_zero_impl L s poly ctx"

definition gr_poly_pow_fmpz ::
  "'a gr_lib \<Rightarrow> 'a machine \<Rightarrow> addr \<Rightarrow> addr \<Rightarrow> int \<Rightarrow> addr \<Rightarrow> status \<times> 'a machine" where
  "gr_poly_pow_fmpz L s res poly e ctx = ret_poly s res (poly_pow_fmpz_impl L s res poly e ctx)"

definition fmpz_init_set_si :: "slong \<Rightarrow> int" where
  \<comment> \<open>Modelled from the spec: \<^verbatim>\<open>fmpz_init_set_si\<close> is a function of \<^verbatim>\<open>fmpz.h\<close>, outside
      \<^verbatim>\<open>polynomial.c\<close>: it makes the arbitrary-precision integer equal to the signed
      machine integer.\<close>
  "fmpz_init_set_si v = sint v"

section \<open>The functions of \<^verbatim>\<open>polynomial.c\<close>\<close>

definition polynomial_init :: "'a machine \<Rightarrow> addr \<Rightarrow> addr \<Rightarrow> 'a machine" where
  "polynomial_init s res ctx = gr_poly_init s res (POLYNOMIAL_ELEM_CTX s ctx)"

definition polynomial_clear :: "'a machine \<Rightarrow> addr \<Rightarrow> addr \<Rightarrow> 'a machine" where
  "polynomial_clear s res ctx = gr_poly_clear s res (POLYNOMIAL_ELEM_CTX s ctx)"

subsection \<open>Generator names\<close>

definition strlen :: "string \<Rightarrow> nat" where
  "strlen s = length s"

definition flint_realloc :: "char_ptr \<Rightarrow> nat \<Rightarrow> char_ptr" where
  \<comment> \<open>Modelled from the spec: \<^verbatim>\<open>flint_realloc\<close> is a function of \<^verbatim>\<open>flint.h\<close>, outside
      \<^verbatim>\<open>polynomial.c\<close>: it gives an owned heap buffer of \<open>n\<close> bytes that keeps the old
      contents.\<close>
  "flint_realloc p n = Buf (take n (c_str p))"

definition memcpy :: "char_ptr \<Rightarrow> string \<Rightarrow> nat \<Rightarrow> char_ptr" where
  \<comment> \<open>copying \<open>n\<close> bytes of the string \<open>src\<close> (its characters, then its NUL) to the buffer\<close>
  "memcpy dst src n = (case dst of Buf old \<Rightarrow> Buf (take n src) | other \<Rightarrow> other)"

definition gr_gr_poly_ctx_set_gen_name ::
  "'a machine \<Rightarrow> addr \<Rightarrow> string \<Rightarrow> status \<times> 'a machine" where
  \<comment> \<open>\<^verbatim>\<open>_gr_gr_poly_ctx_set_gen_name\<close>\<close>
  "gr_gr_poly_ctx_set_gen_name s ctx name =
     (let n = strlen name;
          v = var (POLYNOMIAL_CTX s ctx);
          v1 = (if v = default_var then NULL else v);
          v2 = flint_realloc v1 (n + 1);
          v3 = memcpy v2 name (n + 1)
      in (GR_SUCCESS, s\<lparr>ctx_at := (ctx_at s)(ctx := (ctx_at s ctx)\<lparr>var := v3\<rparr>)\<rparr>))"

definition gr_gr_poly_ctx_set_gen_names ::
  "'a machine \<Rightarrow> addr \<Rightarrow> string list \<Rightarrow> (status \<times> 'a machine) option" where
  \<comment> \<open>\<^verbatim>\<open>_gr_gr_poly_ctx_set_gen_names\<close>: \<^verbatim>\<open>s[0]\<close> is read; an array with no entry has no
      \<^verbatim>\<open>s[0]\<close> to read\<close>
  "gr_gr_poly_ctx_set_gen_names s ctx names =
     (case names of
        [] \<Rightarrow> None
      | s0 # rest \<Rightarrow> Some (gr_gr_poly_ctx_set_gen_name s ctx s0))"

subsection \<open>Context predicates and their table entries\<close>

definition polynomial_ctx_is_ring :: "'a gr_lib \<Rightarrow> 'a machine \<Rightarrow> addr \<Rightarrow> truth_t" where
  "polynomial_ctx_is_ring L s ctx = gr_ctx_is_ring L s (POLYNOMIAL_ELEM_CTX s ctx)"

definition polynomial_ctx_is_commutative_ring :: "'a gr_lib \<Rightarrow> 'a machine \<Rightarrow> addr \<Rightarrow> truth_t" where
  "polynomial_ctx_is_commutative_ring L s ctx =
     gr_ctx_is_commutative_ring L s (POLYNOMIAL_ELEM_CTX s ctx)"

definition polynomial_ctx_is_integral_domain :: "'a gr_lib \<Rightarrow> 'a machine \<Rightarrow> addr \<Rightarrow> truth_t" where
  "polynomial_ctx_is_integral_domain L s ctx =
     gr_ctx_is_integral_domain L s (POLYNOMIAL_ELEM_CTX s ctx)"

definition polynomial_ctx_is_unique_factorization_domain ::
  "'a gr_lib \<Rightarrow> 'a machine \<Rightarrow> addr \<Rightarrow> truth_t" where
  "polynomial_ctx_is_unique_factorization_domain L s ctx =
     gr_ctx_is_unique_factorization_domain L s (POLYNOMIAL_ELEM_CTX s ctx)"

definition polynomial_ctx_is_rational_vector_space ::
  "'a gr_lib \<Rightarrow> 'a machine \<Rightarrow> addr \<Rightarrow> truth_t" where
  "polynomial_ctx_is_rational_vector_space L s ctx =
     gr_ctx_is_rational_vector_space L s (POLYNOMIAL_ELEM_CTX s ctx)"

definition polynomial_ctx_is_real_vector_space :: "'a gr_lib \<Rightarrow> 'a machine \<Rightarrow> addr \<Rightarrow> truth_t" where
  "polynomial_ctx_is_real_vector_space L s ctx =
     gr_ctx_is_real_vector_space L s (POLYNOMIAL_ELEM_CTX s ctx)"

definition polynomial_ctx_is_complex_vector_space ::
  "'a gr_lib \<Rightarrow> 'a machine \<Rightarrow> addr \<Rightarrow> truth_t" where
  "polynomial_ctx_is_complex_vector_space L s ctx =
     gr_ctx_is_complex_vector_space L s (POLYNOMIAL_ELEM_CTX s ctx)"

definition polynomial_ctx_is_threadsafe :: "'a gr_lib \<Rightarrow> 'a machine \<Rightarrow> addr \<Rightarrow> truth_t" where
  "polynomial_ctx_is_threadsafe L s ctx = gr_ctx_is_threadsafe L s (POLYNOMIAL_ELEM_CTX s ctx)"

text \<open>
  The entries of \<^verbatim>\<open>_gr_poly_methods_input\<close> for the context predicates, in the order of the
  source. (The other entries of the table have other function types; the functions they
  name are modelled below and called directly.)
\<close>

definition gr_poly_methods_input ::
  "(gr_method \<times> ('a gr_lib \<Rightarrow> 'a machine \<Rightarrow> addr \<Rightarrow> truth_t)) list" where
  "gr_poly_methods_input =
    [(GR_METHOD_CTX_IS_RING, polynomial_ctx_is_ring),
     (GR_METHOD_CTX_IS_COMMUTATIVE_RING, polynomial_ctx_is_commutative_ring),
     (GR_METHOD_CTX_IS_INTEGRAL_DOMAIN, polynomial_ctx_is_integral_domain),
     (GR_METHOD_CTX_IS_UNIQUE_FACTORIZATION_DOMAIN, polynomial_ctx_is_unique_factorization_domain),
     (GR_METHOD_CTX_IS_FIELD, gr_generic_ctx_predicate_false),
     (GR_METHOD_CTX_IS_RATIONAL_VECTOR_SPACE, polynomial_ctx_is_rational_vector_space),
     (GR_METHOD_CTX_IS_REAL_VECTOR_SPACE, polynomial_ctx_is_real_vector_space),
     (GR_METHOD_CTX_IS_COMPLEX_VECTOR_SPACE, polynomial_ctx_is_complex_vector_space),
     (GR_METHOD_CTX_IS_THREADSAFE, polynomial_ctx_is_threadsafe)]"

definition gr_poly_methods ::
  "gr_method \<Rightarrow> ('a gr_lib \<Rightarrow> 'a machine \<Rightarrow> addr \<Rightarrow> truth_t) option" where
  \<comment> \<open>the method table that \<^verbatim>\<open>gr_method_tab_init\<close> fills from the input list\<close>
  "gr_poly_methods m = map_of gr_poly_methods_input m"

definition gr_poly_ctx_predicate :: "gr_method \<Rightarrow> 'a gr_lib \<Rightarrow> 'a machine \<Rightarrow> addr \<Rightarrow> truth_t option" where
  \<comment> \<open>dispatch of a context predicate on a polynomial-ring context\<close>
  "gr_poly_ctx_predicate m L s ctx = map_option (\<lambda>f. f L s ctx) (gr_poly_methods m)"

subsection \<open>Setting from the same ring and from native scalars\<close>

definition polynomial_set ::
  "'a gr_lib \<Rightarrow> 'a machine \<Rightarrow> addr \<Rightarrow> addr \<Rightarrow> addr \<Rightarrow> status \<times> 'a machine" where
  "polynomial_set L s res mat ctx = gr_poly_set L s res mat (POLYNOMIAL_ELEM_CTX s ctx)"

definition polynomial_set_si ::
  "'a gr_lib \<Rightarrow> 'a machine \<Rightarrow> addr \<Rightarrow> slong \<Rightarrow> addr \<Rightarrow> status \<times> 'a machine" where
  "polynomial_set_si L s res v ctx = gr_poly_set_si L s res v (POLYNOMIAL_ELEM_CTX s ctx)"

definition polynomial_set_ui ::
  "'a gr_lib \<Rightarrow> 'a machine \<Rightarrow> addr \<Rightarrow> ulong \<Rightarrow> addr \<Rightarrow> status \<times> 'a machine" where
  "polynomial_set_ui L s res v ctx = gr_poly_set_ui L s res v (POLYNOMIAL_ELEM_CTX s ctx)"

definition polynomial_set_fmpz ::
  "'a gr_lib \<Rightarrow> 'a machine \<Rightarrow> addr \<Rightarrow> int \<Rightarrow> addr \<Rightarrow> status \<times> 'a machine" where
  "polynomial_set_fmpz L s res v ctx = gr_poly_set_fmpz L s res v (POLYNOMIAL_ELEM_CTX s ctx)"

definition polynomial_set_fmpq ::
  "'a gr_lib \<Rightarrow> 'a machine \<Rightarrow> addr \<Rightarrow> rat \<Rightarrow> addr \<Rightarrow> status \<times> 'a machine" where
  "polynomial_set_fmpq L s res v ctx = gr_poly_set_fmpq L s res v (POLYNOMIAL_ELEM_CTX s ctx)"

subsection \<open>Coercion from another ring\<close>

definition polynomial_set_other ::
  "'a gr_lib \<Rightarrow> 'a machine \<Rightarrow> addr \<Rightarrow> addr \<Rightarrow> addr \<Rightarrow> addr \<Rightarrow> status \<times> 'a machine" where
  "polynomial_set_other L s res x x_ctx ctx =
     (if x_ctx = ctx then
        polynomial_set L s res x ctx
      else if x_ctx = POLYNOMIAL_ELEM_CTX s ctx then
        gr_poly_set_scalar L s res (Obj x) x_ctx
      else if which_ring (ctx_at s x_ctx) = GR_CTX_GR_POLY \<and>
              strcmp0 (var (POLYNOMIAL_CTX s x_ctx)) (var (POLYNOMIAL_CTX s ctx)) then
        gr_poly_set_gr_poly_other L s res x (POLYNOMIAL_ELEM_CTX s x_ctx) (POLYNOMIAL_ELEM_CTX s ctx)
      else if which_ring (ctx_at s x_ctx) = GR_CTX_FMPZ_POLY then
        gr_poly_set_fmpz_poly L s res x (POLYNOMIAL_ELEM_CTX s ctx)
      else if which_ring (ctx_at s x_ctx) = GR_CTX_FMPQ_POLY then
        gr_poly_set_fmpq_poly L s res x (POLYNOMIAL_ELEM_CTX s ctx)
      else if which_ring (ctx_at s x_ctx) = GR_CTX_GR_VEC then
        (let (tmp, s1) = local_var s;
             s2 = store s1 tmp (Seq (slots (obj_at s1 x)) (len (obj_at s1 x)));
             (status, s3) = gr_poly_set_gr_poly_other L s2 res tmp
                              (base_ring (VECTOR_CTX s2 x_ctx)) (POLYNOMIAL_ELEM_CTX s2 ctx)
         in (status, end_local s3))
      else
        (let s1 = gr_poly_fit_length L s res 1 (POLYNOMIAL_ELEM_CTX s ctx);
             (status, s2) = gr_set_other L s1 (Coeff res 0) (Obj x) x_ctx (POLYNOMIAL_ELEM_CTX s1 ctx)
         in if status = GR_SUCCESS then
              (let s3 = gr_poly_set_length s2 res 1 (POLYNOMIAL_ELEM_CTX s2 ctx);
                   s4 = gr_poly_normalise L s3 res (POLYNOMIAL_ELEM_CTX s3 ctx)
               in (status, s4))
            else
              (status, gr_poly_set_length s2 res 0 (POLYNOMIAL_ELEM_CTX s2 ctx))))"

subsection \<open>Arithmetic with native scalars\<close>

definition polynomial_add_ui ::
  "'a gr_lib \<Rightarrow> 'a machine \<Rightarrow> addr \<Rightarrow> addr \<Rightarrow> ulong \<Rightarrow> addr \<Rightarrow> status \<times> 'a machine" where
  "polynomial_add_ui L s res poly c ctx = gr_poly_add_ui L s res poly c (POLYNOMIAL_ELEM_CTX s ctx)"

definition polynomial_add_si ::
  "'a gr_lib \<Rightarrow> 'a machine \<Rightarrow> addr \<Rightarrow> addr \<Rightarrow> slong \<Rightarrow> addr \<Rightarrow> status \<times> 'a machine" where
  "polynomial_add_si L s res poly c ctx = gr_poly_add_si L s res poly c (POLYNOMIAL_ELEM_CTX s ctx)"

definition polynomial_add_fmpz ::
  "'a gr_lib \<Rightarrow> 'a machine \<Rightarrow> addr \<Rightarrow> addr \<Rightarrow> int \<Rightarrow> addr \<Rightarrow> status \<times> 'a machine" where
  "polynomial_add_fmpz L s res poly c ctx = gr_poly_add_fmpz L s res poly c (POLYNOMIAL_ELEM_CTX s ctx)"

definition polynomial_add_fmpq ::
  "'a gr_lib \<Rightarrow> 'a machine \<Rightarrow> addr \<Rightarrow> addr \<Rightarrow> rat \<Rightarrow> addr \<Rightarrow> status \<times> 'a machine" where
  "polynomial_add_fmpq L s res poly c ctx = gr_poly_add_fmpq L s res poly c (POLYNOMIAL_ELEM_CTX s ctx)"

definition polynomial_add ::
  "'a gr_lib \<Rightarrow> 'a machine \<Rightarrow> addr \<Rightarrow> addr \<Rightarrow> addr \<Rightarrow> addr \<Rightarrow> status \<times> 'a machine" where
  "polynomial_add L s res poly1 poly2 ctx = gr_poly_add L s res poly1 poly2 (POLYNOMIAL_ELEM_CTX s ctx)"

definition polynomial_sub_ui ::
  "'a gr_lib \<Rightarrow> 'a machine \<Rightarrow> addr \<Rightarrow> addr \<Rightarrow> ulong \<Rightarrow> addr \<Rightarrow> status \<times> 'a machine" where
  "polynomial_sub_ui L s res poly c ctx = gr_poly_sub_ui L s res poly c (POLYNOMIAL_ELEM_CTX s ctx)"

definition polynomial_sub_si ::
  "'a gr_lib \<Rightarrow> 'a machine \<Rightarrow> addr \<Rightarrow> addr \<Rightarrow> slong \<Rightarrow> addr \<Rightarrow> status \<times> 'a machine" where
  "polynomial_sub_si L s res poly c ctx = gr_poly_sub_si L s res poly c (POLYNOMIAL_ELEM_CTX s ctx)"

definition polynomial_sub_fmpz ::
  "'a gr_lib \<Rightarrow> 'a machine \<Rightarrow> addr \<Rightarrow> addr \<Rightarrow> int \<Rightarrow> addr \<Rightarrow> status \<times> 'a machine" where
  "polynomial_sub_fmpz L s res poly c ctx = gr_poly_sub_fmpz L s res poly c (POLYNOMIAL_ELEM_CTX s ctx)"

definition polynomial_sub_fmpq ::
  "'a gr_lib \<Rightarrow> 'a machine \<Rightarrow> addr \<Rightarrow> addr \<Rightarrow> rat \<Rightarrow> addr \<Rightarrow> status \<times> 'a machine" where
  "polynomial_sub_fmpq L s res poly c ctx = gr_poly_sub_fmpq L s res poly c (POLYNOMIAL_ELEM_CTX s ctx)"

definition polynomial_sub ::
  "'a gr_lib \<Rightarrow> 'a machine \<Rightarrow> addr \<Rightarrow> addr \<Rightarrow> addr \<Rightarrow> addr \<Rightarrow> status \<times> 'a machine" where
  "polynomial_sub L s res poly1 poly2 ctx = gr_poly_sub L s res poly1 poly2 (POLYNOMIAL_ELEM_CTX s ctx)"

definition polynomial_mul_ui ::
  "'a gr_lib \<Rightarrow> 'a machine \<Rightarrow> addr \<Rightarrow> addr \<Rightarrow> ulong \<Rightarrow> addr \<Rightarrow> status \<times> 'a machine" where
  "polynomial_mul_ui L s res poly c ctx = gr_poly_mul_ui L s res poly c (POLYNOMIAL_ELEM_CTX s ctx)"

definition polynomial_mul_si ::
  "'a gr_lib \<Rightarrow> 'a machine \<Rightarrow> addr \<Rightarrow> addr \<Rightarrow> slong \<Rightarrow> addr \<Rightarrow> status \<times> 'a machine" where
  "polynomial_mul_si L s res poly c ctx = gr_poly_mul_si L s res poly c (POLYNOMIAL_ELEM_CTX s ctx)"

definition polynomial_mul_fmpz ::
  "'a gr_lib \<Rightarrow> 'a machine \<Rightarrow> addr \<Rightarrow> addr \<Rightarrow> int \<Rightarrow> addr \<Rightarrow> status \<times> 'a machine" where
  "polynomial_mul_fmpz L s res poly c ctx = gr_poly_mul_fmpz L s res poly c (POLYNOMIAL_ELEM_CTX s ctx)"

definition polynomial_mul_fmpq ::
  "'a gr_lib \<Rightarrow> 'a machine \<Rightarrow> addr \<Rightarrow> addr \<Rightarrow> rat \<Rightarrow> addr \<Rightarrow> status \<times> 'a machine" where
  "polynomial_mul_fmpq L s res poly c ctx = gr_poly_mul_fmpq L s res poly c (POLYNOMIAL_ELEM_CTX s ctx)"

subsection \<open>Multiplication and the degree limit\<close>

definition polynomial_mul ::
  "'a gr_lib \<Rightarrow> 'a machine \<Rightarrow> addr \<Rightarrow> addr \<Rightarrow> addr \<Rightarrow> addr \<Rightarrow> status \<times> 'a machine" where
  "polynomial_mul L s res poly1 poly2 ctx =
     (if degree_limit (POLYNOMIAL_CTX s ctx) \<noteq> WORD_MAX \<and>
         poly_length s poly1 \<noteq> 0 \<and> poly_length s poly2 \<noteq> 0 \<and>
         int (poly_length s poly1 + poly_length s poly2) > sint (degree_limit (POLYNOMIAL_CTX s ctx))
      then (GR_UNABLE, s)
      else gr_poly_mul L s res poly1 poly2 (POLYNOMIAL_ELEM_CTX s ctx))"

definition polynomial_mul_other ::
  "'a gr_lib \<Rightarrow> 'a machine \<Rightarrow> addr \<Rightarrow> addr \<Rightarrow> addr \<Rightarrow> addr \<Rightarrow> addr \<Rightarrow> status \<times> 'a machine" where
  "polynomial_mul_other L s res poly x x_ctx ctx =
     (if x_ctx = POLYNOMIAL_ELEM_CTX s ctx then
        gr_poly_mul_scalar L s res poly (Obj x) x_ctx
      else if which_ring (ctx_at s x_ctx) = GR_CTX_GR_POLY \<and>
              POLYNOMIAL_ELEM_CTX s x_ctx = POLYNOMIAL_ELEM_CTX s ctx \<and>
              strcmp0 (var (POLYNOMIAL_CTX s x_ctx)) (var (POLYNOMIAL_CTX s ctx)) then
        polynomial_mul L s res poly x ctx
      else
        (let (t, s0) = local_var s;
             s1 = polynomial_init s0 t ctx;
             (status, s2) = polynomial_set_other L s1 t x x_ctx ctx;
             (status, s3) = (if status = GR_SUCCESS then polynomial_mul L s2 res poly t ctx
                             else (status, s2));
             s4 = polynomial_clear s3 t ctx
         in (status, end_local s4)))"

definition polynomial_other_mul ::
  "'a gr_lib \<Rightarrow> 'a machine \<Rightarrow> addr \<Rightarrow> addr \<Rightarrow> addr \<Rightarrow> addr \<Rightarrow> addr \<Rightarrow> status \<times> 'a machine" where
  "polynomial_other_mul L s res x x_ctx poly ctx =
     (if x_ctx = POLYNOMIAL_ELEM_CTX s ctx then
        gr_poly_scalar_mul L s res (Obj x) poly x_ctx
      else if which_ring (ctx_at s x_ctx) = GR_CTX_GR_POLY \<and>
              POLYNOMIAL_ELEM_CTX s x_ctx = POLYNOMIAL_ELEM_CTX s ctx \<and>
              strcmp0 (var (POLYNOMIAL_CTX s x_ctx)) (var (POLYNOMIAL_CTX s ctx)) then
        polynomial_mul L s res x poly ctx
      else
        (let (t, s0) = local_var s;
             s1 = polynomial_init s0 t ctx;
             (status, s2) = polynomial_set_other L s1 t x x_ctx ctx;
             (status, s3) = (if status = GR_SUCCESS then polynomial_mul L s2 res t poly ctx
                             else (status, s2));
             s4 = polynomial_clear s3 t ctx
         in (status, end_local s4)))"

subsection \<open>Division\<close>

definition polynomial_div ::
  "'a gr_lib \<Rightarrow> 'a machine \<Rightarrow> addr \<Rightarrow> addr \<Rightarrow> addr \<Rightarrow> addr \<Rightarrow> status \<times> 'a machine" where
  "polynomial_div L s res x y ctx =
     (if poly_length s y = 1 then
        (if res = y then
           (let status = GR_SUCCESS;
                (t, s1) = GR_TMP_INIT L s (POLYNOMIAL_ELEM_CTX s ctx);
                (st1, s2) = gr_set L s1 (Obj t) (Coeff y 0) (POLYNOMIAL_ELEM_CTX s1 ctx);
                status = status OR st1;
                (st2, s3) = gr_poly_div_scalar L s2 res x (Obj t) (POLYNOMIAL_ELEM_CTX s2 ctx);
                status = status OR st2
            in (status, GR_TMP_CLEAR s3 t (POLYNOMIAL_ELEM_CTX s3 ctx)))
         else
           gr_poly_div_scalar L s res x (Coeff y 0) (POLYNOMIAL_ELEM_CTX s ctx))
      else
        (let (r, s0) = local_var s;
             s1 = gr_poly_init s0 r (POLYNOMIAL_ELEM_CTX s0 ctx);
             (status, s2) = gr_poly_divrem L s1 res r x y (POLYNOMIAL_ELEM_CTX s1 ctx);
             status =
               (if status = GR_SUCCESS then
                  (let is_zero = gr_poly_is_zero L s2 r (POLYNOMIAL_ELEM_CTX s2 ctx);
                       status = (if is_zero = T_FALSE then GR_DOMAIN else status);
                       status = (if is_zero = T_UNKNOWN then GR_UNABLE else status)
                   in status)
                else status);
             s3 = gr_poly_clear s2 r (POLYNOMIAL_ELEM_CTX s2 ctx)
         in (status, end_local s3)))"

definition polynomial_euclidean_div ::
  "'a gr_lib \<Rightarrow> 'a machine \<Rightarrow> addr \<Rightarrow> addr \<Rightarrow> addr \<Rightarrow> addr \<Rightarrow> status \<times> 'a machine" where
  "polynomial_euclidean_div L s res x y ctx =
     (let (r, s0) = local_var s;
          s1 = gr_poly_init s0 r (POLYNOMIAL_ELEM_CTX s0 ctx);
          (status, s2) = gr_poly_divrem L s1 res r x y (POLYNOMIAL_ELEM_CTX s1 ctx);
          s3 = gr_poly_clear s2 r (POLYNOMIAL_ELEM_CTX s2 ctx)
      in (status, end_local s3))"

definition polynomial_euclidean_rem ::
  "'a gr_lib \<Rightarrow> 'a machine \<Rightarrow> addr \<Rightarrow> addr \<Rightarrow> addr \<Rightarrow> addr \<Rightarrow> status \<times> 'a machine" where
  "polynomial_euclidean_rem L s res x y ctx =
     (let (q, s0) = local_var s;
          s1 = gr_poly_init s0 q (POLYNOMIAL_ELEM_CTX s0 ctx);
          (status, s2) = gr_poly_divrem L s1 q res x y (POLYNOMIAL_ELEM_CTX s1 ctx);
          s3 = gr_poly_clear s2 q (POLYNOMIAL_ELEM_CTX s2 ctx)
      in (status, end_local s3))"

definition polynomial_euclidean_divrem ::
  "'a gr_lib \<Rightarrow> 'a machine \<Rightarrow> addr \<Rightarrow> addr \<Rightarrow> addr \<Rightarrow> addr \<Rightarrow> addr \<Rightarrow> status \<times> 'a machine" where
  "polynomial_euclidean_divrem L s res1 res2 x y ctx =
     gr_poly_divrem L s res1 res2 x y (POLYNOMIAL_ELEM_CTX s ctx)"

subsection \<open>Powers\<close>

definition polynomial_pow_fmpz ::
  "'a gr_lib \<Rightarrow> 'a machine \<Rightarrow> addr \<Rightarrow> addr \<Rightarrow> int \<Rightarrow> addr \<Rightarrow> status \<times> 'a machine" where
  "polynomial_pow_fmpz L s res poly e ctx = gr_poly_pow_fmpz L s res poly e (POLYNOMIAL_ELEM_CTX s ctx)"

definition polynomial_pow_si ::
  "'a gr_lib \<Rightarrow> 'a machine \<Rightarrow> addr \<Rightarrow> addr \<Rightarrow> slong \<Rightarrow> addr \<Rightarrow> status \<times> 'a machine" where
  "polynomial_pow_si L s res poly e ctx =
     (let t = fmpz_init_set_si e;
          (status, s1) = gr_poly_pow_fmpz L s res poly t (POLYNOMIAL_ELEM_CTX s ctx)
      in (status, s1))"

subsection \<open>Constructing a context\<close>

text \<open>
  The globals of the file: the flag \<^verbatim>\<open>_gr_poly_methods_initialized\<close>, a C \<^verbatim>\<open>int\<close> that
  starts at 0, and the static table \<^verbatim>\<open>_gr_poly_methods\<close>, all of whose entries start
  empty. The field \<open>builds\<close> counts the calls of \<^verbatim>\<open>gr_method_tab_init\<close>; the program
  keeps no such counter, it is there to say how often the table is constructed. As in
  \<open>gr_poly_methods_input\<close>, the table is kept for the context predicates.
\<close>

type_synonym 'a ctx_predicate = "'a gr_lib \<Rightarrow> 'a machine \<Rightarrow> addr \<Rightarrow> truth_t"

record 'a process =
  mem :: "'a machine"
  methods_initialized :: int
  methods_table :: "gr_method \<Rightarrow> 'a ctx_predicate option"
  builds :: nat

definition initial_process :: "'a machine \<Rightarrow> 'a process" where
  \<comment> \<open>the globals as their static initialisers leave them\<close>
  "initial_process m =
     \<lparr>mem = m, methods_initialized = 0, methods_table = (\<lambda>m. None), builds = 0\<rparr>"

definition gr_method_tab_init :: "(gr_method \<times> 'f) list \<Rightarrow> gr_method \<Rightarrow> 'f option" where
  \<comment> \<open>Modelled from the spec: \<^verbatim>\<open>gr_method_tab_init\<close> is a function of \<^verbatim>\<open>gr.h\<close>, outside
      \<^verbatim>\<open>polynomial.c\<close>: it makes the "table mapping every identifier it supports to a
      function; identifiers it does not support are absent".\<close>
  "gr_method_tab_init input = (\<lambda>m. map_of input m)"

text \<open>
  The statements of \<^verbatim>\<open>gr_ctx_init_gr_poly\<close>, in the order of the source. The assignments
  to \<^verbatim>\<open>ctx->sizeof_elem\<close>, \<^verbatim>\<open>ctx->size_limit\<close> and \<^verbatim>\<open>ctx->methods\<close> (the address of the
  static table, the same for every polynomial context) write fields that no function
  modelled here reads; the context structure of the model does not have them.
\<close>

definition init_ctx_fields :: "'a process \<Rightarrow> addr \<Rightarrow> addr \<Rightarrow> 'a process" where
  "init_ctx_fields g ctx base =
     g\<lparr>mem := (mem g)\<lparr>ctx_at := (ctx_at (mem g))
        (ctx := (ctx_at (mem g) ctx)
           \<lparr>which_ring := GR_CTX_GR_POLY, base_ring := base,
            degree_limit := WORD_MAX, var := default_var\<rparr>)\<rparr>\<rparr>"

definition build_table :: "'a process \<Rightarrow> 'a process" where
  \<comment> \<open>\<^verbatim>\<open>gr_method_tab_init(_gr_poly_methods, _gr_poly_methods_input)\<close>\<close>
  "build_table g =
     g\<lparr>methods_table := gr_method_tab_init gr_poly_methods_input, builds := Suc (builds g)\<rparr>"

definition set_flag :: "'a process \<Rightarrow> 'a process" where
  \<comment> \<open>\<^verbatim>\<open>_gr_poly_methods_initialized = 1\<close>\<close>
  "set_flag g = g\<lparr>methods_initialized := 1\<rparr>"

definition gr_ctx_init_gr_poly :: "'a process \<Rightarrow> addr \<Rightarrow> addr \<Rightarrow> 'a process" where
  "gr_ctx_init_gr_poly g ctx base =
     (let g1 = init_ctx_fields g ctx base
      in if methods_initialized g1 = 0 then set_flag (build_table g1) else g1)"

primrec construct_all :: "'a process \<Rightarrow> (addr \<times> addr) list \<Rightarrow> 'a process" where
  \<comment> \<open>contexts constructed one after another, each given as (context, base ring)\<close>
  "construct_all g [] = g"
| "construct_all g (c # cs) = construct_all (gr_ctx_init_gr_poly g (fst c) (snd c)) cs"

text \<open>
  Several threads inside \<^verbatim>\<open>gr_ctx_init_gr_poly\<close> at once: each thread is at one of the
  statements of the function, and a schedule says which thread executes its next
  statement. A thread that has read the flag as 0 goes on to build the table and then to
  set the flag, whatever the other threads have done in between. Each statement is taken
  as one step; the function takes no lock and uses no atomic operation.
\<close>

datatype pc = Entered | Testing | Building | Setting | Returned

fun thread_step :: "pc \<Rightarrow> addr \<times> addr \<Rightarrow> 'a process \<Rightarrow> pc \<times> 'a process" where
  "thread_step Entered a g = (Testing, init_ctx_fields g (fst a) (snd a))"
| "thread_step Testing a g = (if methods_initialized g = 0 then Building else Returned, g)"
| "thread_step Building a g = (Setting, build_table g)"
| "thread_step Setting a g = (Returned, set_flag g)"
| "thread_step Returned a g = (Returned, g)"

definition step ::
  "(nat \<Rightarrow> addr \<times> addr) \<Rightarrow> nat \<Rightarrow> (nat \<Rightarrow> pc) \<times> 'a process \<Rightarrow> (nat \<Rightarrow> pc) \<times> 'a process" where
  \<comment> \<open>thread \<open>t\<close>, called with the arguments \<open>args t\<close>, executes its next statement\<close>
  "step args t cfg =
     (let r = thread_step (fst cfg t) (args t) (snd cfg) in ((fst cfg)(t := fst r), snd r))"

primrec run ::
  "(nat \<Rightarrow> addr \<times> addr) \<Rightarrow> nat list \<Rightarrow> (nat \<Rightarrow> pc) \<times> 'a process \<Rightarrow> (nat \<Rightarrow> pc) \<times> 'a process" where
  "run args [] cfg = cfg"
| "run args (t # ts) cfg = run args ts (step args t cfg)"

section \<open>The specification's reading of the operations\<close>

subsection \<open>What an operation leaves to its caller\<close>

definition result_of :: "addr \<Rightarrow> status \<times> 'a machine \<Rightarrow> status \<times> 'a list" where
  \<comment> \<open>the status, and the polynomial left in \<open>res\<close>\<close>
  "result_of res r = (fst r, coeffs (obj_at (snd r) res))"

definition degree_limit_refuses :: "'a machine \<Rightarrow> addr \<Rightarrow> addr \<Rightarrow> addr \<Rightarrow> bool" where
  \<comment> \<open>a ceiling is set, both operands are nonzero, and their lengths add up to more than it\<close>
  "degree_limit_refuses s a b ctx \<longleftrightarrow>
     degree_limit (ctx_at s ctx) \<noteq> WORD_MAX \<and> poly_length s a \<noteq> 0 \<and> poly_length s b \<noteq> 0 \<and>
     int (poly_length s a + poly_length s b) > sint (degree_limit (ctx_at s ctx))"

definition with_scratch_poly :: "'a machine \<Rightarrow> 'a machine" where
  \<comment> \<open>the state in which a local polynomial at the stack mark has been initialised\<close>
  "with_scratch_poly s = store (s\<lparr>sp := Suc (sp s)\<rparr>) (sp s) (Seq [] 0)"

definition with_scratch_elem :: "'a gr_lib \<Rightarrow> 'a machine \<Rightarrow> addr \<Rightarrow> 'a machine" where
  \<comment> \<open>the state in which a temporary element at the stack mark has been initialised\<close>
  "with_scratch_elem L s ctx = store (s\<lparr>sp := Suc (sp s)\<rparr>) (sp s) (Scalar (init_impl L ctx))"

definition same_polynomial_ring :: "'a machine \<Rightarrow> addr \<Rightarrow> addr \<Rightarrow> bool" where
  \<comment> \<open>\<open>x_ctx\<close> is a ring of polynomials over this same base ring with the same generator name\<close>
  "same_polynomial_ring s x_ctx ctx \<longleftrightarrow>
     which_ring (ctx_at s x_ctx) = GR_CTX_GR_POLY \<and>
     base_ring (ctx_at s x_ctx) = base_ring (ctx_at s ctx) \<and>
     c_str (var (ctx_at s x_ctx)) = c_str (var (ctx_at s ctx))"

subsection \<open>The ordered coercion rules\<close>

fun first_match :: "(bool \<times> 'b) list \<Rightarrow> 'b \<Rightarrow> 'b" where
  "first_match [] fallback = fallback"
| "first_match ((applies, handler) # rules) fallback =
     (if applies then handler else first_match rules fallback)"

definition with_entries_as_poly :: "'a machine \<Rightarrow> addr \<Rightarrow> 'a machine" where
  \<comment> \<open>the state in which a scratch polynomial at the stack mark holds the entries of the
      vector \<open>x\<close> as its coefficients\<close>
  "with_entries_as_poly s x =
     store (s\<lparr>sp := Suc (sp s)\<rparr>) (sp s) (Seq (slots (obj_at s x)) (len (obj_at s x)))"

definition coercion_rules ::
  "'a gr_lib \<Rightarrow> 'a machine \<Rightarrow> addr \<Rightarrow> addr \<Rightarrow> addr \<Rightarrow> addr \<Rightarrow> (bool \<times> (status \<times> 'a list)) list" where
  "coercion_rules L s res x x_ctx ctx =
     (let this_base = base_ring (ctx_at s ctx);
          kind = which_ring (ctx_at s x_ctx)
      in
      [ \<comment> \<open>1. this exact context: plain copy\<close>
        (x_ctx = ctx, poly_set_impl L s res x this_base),
        \<comment> \<open>2. the base-ring context: constant polynomial\<close>
        (x_ctx = this_base, poly_set_scalar_impl L s res (Obj x) x_ctx),
        \<comment> \<open>3. polynomials over some ring, same generator name: coefficient-wise coercion\<close>
        (kind = GR_CTX_GR_POLY \<and> c_str (var (ctx_at s x_ctx)) = c_str (var (ctx_at s ctx)),
         poly_set_gr_poly_other_impl L s res x (base_ring (ctx_at s x_ctx)) this_base),
        \<comment> \<open>4. big-integer or big-rational polynomials: bulk conversion\<close>
        (kind = GR_CTX_FMPZ_POLY \<or> kind = GR_CTX_FMPQ_POLY,
         if kind = GR_CTX_FMPZ_POLY then poly_set_fmpz_poly_impl L s res x this_base
         else poly_set_fmpq_poly_impl L s res x this_base),
        \<comment> \<open>5. a generic vector: its entries as coefficients, coerced coefficient-wise\<close>
        (kind = GR_CTX_GR_VEC,
         poly_set_gr_poly_other_impl L (with_entries_as_poly s x) res (sp s)
           (base_ring (ctx_at s x_ctx)) this_base) ])"

definition degree0 :: "'a gr_lib \<Rightarrow> addr \<Rightarrow> 'a \<Rightarrow> 'a list" where
  \<comment> \<open>the constant polynomial \<open>c\<close> in normal form: no coefficient when \<open>c\<close> is proved zero\<close>
  "degree0 L ctx c = (if is_zero_impl L c ctx = T_TRUE then [] else [c])"

definition scalar_fallback ::
  "'a gr_lib \<Rightarrow> 'a machine \<Rightarrow> addr \<Rightarrow> addr \<Rightarrow> addr \<Rightarrow> addr \<Rightarrow> status \<times> 'a list" where
  \<comment> \<open>6. coerce the value as one scalar into the base ring, with room made for it in
      \<open>res\<close>; wrap it as a constant polynomial, or give the zero polynomial when the
      coercion fails; the coercion's status either way\<close>
  "scalar_fallback L s res x x_ctx ctx =
     (let this_base = base_ring (ctx_at s ctx);
          (st, c) = set_other_impl L (gr_poly_fit_length L s res 1 this_base)
                      (Coeff res 0) (Obj x) x_ctx this_base
      in (st, if st = GR_SUCCESS then degree0 L this_base c else []))"

definition spec_set_other ::
  "'a gr_lib \<Rightarrow> 'a machine \<Rightarrow> addr \<Rightarrow> addr \<Rightarrow> addr \<Rightarrow> addr \<Rightarrow> status \<times> 'a list" where
  "spec_set_other L s res x x_ctx ctx =
     first_match (coercion_rules L s res x x_ctx ctx) (scalar_fallback L s res x x_ctx ctx)"

subsection \<open>The status of exact division\<close>

definition long_division_status :: "status \<Rightarrow> truth_t \<Rightarrow> status" where
  \<comment> \<open>from the status \<open>st\<close> of the long division and the zero test \<open>z\<close> of its remainder: a
      failed long division keeps its status; after a successful one the remainder decides\<close>
  "long_division_status st z =
     (if st \<noteq> GR_SUCCESS then st
      else if z = T_TRUE then GR_SUCCESS
      else if z = T_FALSE then GR_DOMAIN
      else GR_UNABLE)"

subsection \<open>A scalar as a polynomial of degree 0\<close>

definition polynomial_set_native ::
  "'a gr_lib \<Rightarrow> 'a machine \<Rightarrow> addr \<Rightarrow> native \<Rightarrow> addr \<Rightarrow> status \<times> 'a machine" where
  "polynomial_set_native L s res c ctx =
     (case c of
        UI v \<Rightarrow> polynomial_set_ui L s res v ctx
      | SI v \<Rightarrow> polynomial_set_si L s res v ctx
      | FMPZ v \<Rightarrow> polynomial_set_fmpz L s res v ctx
      | FMPQ v \<Rightarrow> polynomial_set_fmpq L s res v ctx)"

definition polynomial_arith ::
  "'a gr_lib \<Rightarrow> arith \<Rightarrow> 'a machine \<Rightarrow> addr \<Rightarrow> addr \<Rightarrow> addr \<Rightarrow> addr \<Rightarrow> status \<times> 'a machine" where
  "polynomial_arith L op s res poly1 poly2 ctx =
     (case op of
        ADD \<Rightarrow> polynomial_add L s res poly1 poly2 ctx
      | SUB \<Rightarrow> polynomial_sub L s res poly1 poly2 ctx
      | MUL \<Rightarrow> polynomial_mul L s res poly1 poly2 ctx)"

definition polynomial_arith_native ::
  "'a gr_lib \<Rightarrow> arith \<Rightarrow> 'a machine \<Rightarrow> addr \<Rightarrow> addr \<Rightarrow> native \<Rightarrow> addr \<Rightarrow> status \<times> 'a machine" where
  \<comment> \<open>the twelve scalar variants, by operation and kind of scalar\<close>
  "polynomial_arith_native L op s res poly c ctx =
     (case op of
        ADD \<Rightarrow> (case c of
                  UI v \<Rightarrow> polynomial_add_ui L s res poly v ctx
                | SI v \<Rightarrow> polynomial_add_si L s res poly v ctx
                | FMPZ v \<Rightarrow> polynomial_add_fmpz L s res poly v ctx
                | FMPQ v \<Rightarrow> polynomial_add_fmpq L s res poly v ctx)
      | SUB \<Rightarrow> (case c of
                  UI v \<Rightarrow> polynomial_sub_ui L s res poly v ctx
                | SI v \<Rightarrow> polynomial_sub_si L s res poly v ctx
                | FMPZ v \<Rightarrow> polynomial_sub_fmpz L s res poly v ctx
                | FMPQ v \<Rightarrow> polynomial_sub_fmpq L s res poly v ctx)
      | MUL \<Rightarrow> (case c of
                  UI v \<Rightarrow> polynomial_mul_ui L s res poly v ctx
                | SI v \<Rightarrow> polynomial_mul_si L s res poly v ctx
                | FMPZ v \<Rightarrow> polynomial_mul_fmpz L s res poly v ctx
                | FMPQ v \<Rightarrow> polynomial_mul_fmpq L s res poly v ctx))"

definition as_degree0_poly ::
  "'a gr_lib \<Rightarrow> 'a machine \<Rightarrow> native \<Rightarrow> addr \<Rightarrow> status \<times> 'a machine" where
  \<comment> \<open>the scalar converted to a polynomial, held by a local polynomial at the stack mark\<close>
  "as_degree0_poly L s c ctx =
     (let (t, s0) = local_var s;
          s1 = polynomial_init s0 t ctx
      in polynomial_set_native L s1 t c ctx)"

definition via_degree0_poly ::
  "'a gr_lib \<Rightarrow> arith \<Rightarrow> 'a machine \<Rightarrow> addr \<Rightarrow> addr \<Rightarrow> native \<Rightarrow> addr \<Rightarrow> status \<times> 'a machine" where
  \<comment> \<open>first convert the scalar to a polynomial of degree 0, then apply the operation on two
      polynomials\<close>
  "via_degree0_poly L op s res poly c ctx =
     (let t = sp s;
          (status, s2) = as_degree0_poly L s c ctx;
          (status, s3) = (if status = GR_SUCCESS then polynomial_arith L op s2 res poly t ctx
                          else (status, s2));
          s4 = polynomial_clear s3 t ctx
      in (status, end_local s4))"

subsection \<open>Polynomials as coefficient lists\<close>

fun padd :: "'a::comm_ring_1 list \<Rightarrow> 'a list \<Rightarrow> 'a list" where
  "padd [] ys = ys"
| "padd xs [] = xs"
| "padd (x # xs) (y # ys) = (x + y) # padd xs ys"

fun pmul :: "'a::comm_ring_1 list \<Rightarrow> 'a list \<Rightarrow> 'a list" where
  "pmul [] ys = []"
| "pmul (x # xs) ys = padd (map (\<lambda>y. x * y) ys) (0 # pmul xs ys)"

fun strip :: "'a::comm_ring_1 list \<Rightarrow> 'a list" where
  "strip [] = []"
| "strip (x # xs) = (let r = strip xs in if r = [] \<and> x = 0 then [] else x # r)"

definition peq :: "'a::comm_ring_1 list \<Rightarrow> 'a list \<Rightarrow> bool" where
  \<comment> \<open>equal as polynomials: the same coefficients up to trailing zeros\<close>
  "peq xs ys \<longleftrightarrow> strip xs = strip ys"

section \<open>An example base ring: the integers\<close>

text \<open>
  A library for the ring of integers, to run the functions of the file on concrete
  inputs: elements are integers, polynomials are kept in normal form, exact division
  fails with Domain-error when it leaves a remainder, and long division needs a divisor
  whose leading coefficient is a unit.
\<close>

definition elem_at :: "int machine \<Rightarrow> ptr \<Rightarrow> int" where
  "elem_at s p =
     (case p of
        Obj a \<Rightarrow> (case obj_at s a of Scalar v \<Rightarrow> v | Seq sl n \<Rightarrow> 0)
      | Coeff a i \<Rightarrow> (let sl = slots (obj_at s a) in if i < length sl then sl ! i else 0))"

definition poly_at :: "'a machine \<Rightarrow> addr \<Rightarrow> 'a list" where
  "poly_at s a = coeffs (obj_at s a)"

fun native_int :: "native \<Rightarrow> int option" where
  "native_int (UI v) = Some (uint v)"
| "native_int (SI v) = Some (sint v)"
| "native_int (FMPZ v) = Some v"
| "native_int (FMPQ q) = (if of_int \<lfloor>q\<rfloor> = q then Some \<lfloor>q\<rfloor> else None)"

fun parith :: "arith \<Rightarrow> int list \<Rightarrow> int list \<Rightarrow> int list" where
  "parith ADD a b = padd a b"
| "parith SUB a b = padd a (map uminus b)"
| "parith MUL a b = pmul a b"

fun ppow :: "int list \<Rightarrow> nat \<Rightarrow> int list" where
  "ppow p 0 = [1]"
| "ppow p (Suc n) = pmul p (ppow p n)"

fun divrem_loop :: "nat \<Rightarrow> int list \<Rightarrow> int list \<Rightarrow> int list \<times> int list" where
  "divrem_loop 0 a b = ([], a)"
| "divrem_loop (Suc k) a b =
     (let c = last a * last b;
          a' = butlast (padd a (map uminus (replicate k 0 @ map (\<lambda>y. c * y) b)));
          (q, r) = divrem_loop k a' b
      in (q @ [c], r))"

definition ZZ_divrem ::
  "int list \<Rightarrow> int list \<Rightarrow> int list \<Rightarrow> int list \<Rightarrow> status \<times> int list \<times> int list" where
  \<comment> \<open>\<open>q0\<close> and \<open>r0\<close> are what the result polynomials held before: a failed division leaves
      them\<close>
  "ZZ_divrem q0 r0 a b =
     (if b = [] then (GR_DOMAIN, q0, r0)
      else if \<bar>last b\<bar> \<noteq> 1 then (GR_UNABLE, q0, r0)
      else if length a < length b then (GR_SUCCESS, [], a)
      else (let (q, r) = divrem_loop (Suc (length a - length b)) a b
            in (GR_SUCCESS, strip q, strip r)))"

definition ZZ_div_scalar :: "int list \<Rightarrow> int list \<Rightarrow> int \<Rightarrow> status \<times> int list" where
  "ZZ_div_scalar q0 a c =
     (if c = 0 \<or> (\<exists>x \<in> set a. x mod c \<noteq> 0) then (GR_DOMAIN, q0)
      else (GR_SUCCESS, map (\<lambda>x. x div c) a))"

definition ZZ_set_native :: "int list \<Rightarrow> native \<Rightarrow> status \<times> int list" where
  "ZZ_set_native r0 c =
     (case native_int c of
        None \<Rightarrow> (GR_DOMAIN, r0)
      | Some v \<Rightarrow> (GR_SUCCESS, strip [v]))"

definition ZZ_set_other :: "int obj \<Rightarrow> status \<times> int" where
  \<comment> \<open>an element that is one integer is taken over; a sequence is not a scalar\<close>
  "ZZ_set_other v = (case v of Scalar c \<Rightarrow> (GR_SUCCESS, c) | Seq sl n \<Rightarrow> (GR_DOMAIN, 0))"

definition ZZ :: "int gr_lib" where
  "ZZ =
    \<lparr> ctx_predicate_impl = (\<lambda>m s ctx. if m = GR_METHOD_CTX_IS_FIELD then T_FALSE else T_TRUE),
      init_impl = (\<lambda>ctx. 0),
      is_zero_impl = (\<lambda>c ctx. if c = 0 then T_TRUE else T_FALSE),
      set_impl = (\<lambda>s res x ctx. (GR_SUCCESS, elem_at s x)),
      set_other_impl = (\<lambda>s res x x_ctx ctx.
         case x of Obj a \<Rightarrow> ZZ_set_other (obj_at s a) | Coeff a i \<Rightarrow> (GR_SUCCESS, elem_at s x)),
      poly_set_impl = (\<lambda>s res src ctx. (GR_SUCCESS, poly_at s src)),
      poly_set_scalar_impl = (\<lambda>s res x ctx. (GR_SUCCESS, strip [elem_at s x])),
      poly_set_gr_poly_other_impl = (\<lambda>s res x x_ctx ctx. (GR_SUCCESS, strip (poly_at s x))),
      poly_set_fmpz_poly_impl = (\<lambda>s res x ctx. (GR_SUCCESS, strip (poly_at s x))),
      poly_set_fmpq_poly_impl = (\<lambda>s res x ctx. (GR_SUCCESS, strip (poly_at s x))),
      poly_set_native_impl = (\<lambda>s res c ctx. ZZ_set_native (poly_at s res) c),
      poly_arith_impl = (\<lambda>op s res poly1 poly2 ctx.
         (GR_SUCCESS, strip (parith op (poly_at s poly1) (poly_at s poly2)))),
      poly_mul_scalar_impl = (\<lambda>s res poly c ctx.
         (GR_SUCCESS, strip (map (\<lambda>x. x * elem_at s c) (poly_at s poly)))),
      poly_scalar_mul_impl = (\<lambda>s res c poly ctx.
         (GR_SUCCESS, strip (map (\<lambda>x. elem_at s c * x) (poly_at s poly)))),
      poly_div_scalar_impl = (\<lambda>s res poly c ctx.
         ZZ_div_scalar (poly_at s res) (poly_at s poly) (elem_at s c)),
      poly_divrem_impl = (\<lambda>s Q R A B ctx.
         ZZ_divrem (poly_at s Q) (poly_at s R) (poly_at s A) (poly_at s B)),
      poly_is_zero_impl = (\<lambda>s poly ctx. if poly_at s poly = [] then T_TRUE else T_FALSE),
      poly_pow_fmpz_impl = (\<lambda>s res poly e ctx.
         if e < 0 then (GR_DOMAIN, poly_at s res)
         else (GR_SUCCESS, strip (ppow (poly_at s poly) (nat e)))) \<rparr>"

text \<open>
  Example contexts: 0 is the ring of integers; 2 is the polynomial ring over it, generator
  \<open>x\<close>, no degree limit; 3 is the same ring with degree limit 3; 4 is the polynomial ring
  with generator \<open>y\<close>; 5 is vectors over the integers; 6 and 7 are the big-integer and
  big-rational polynomial rings; every other address is some other ring of scalars.
\<close>

definition poly_ctx :: "slong \<Rightarrow> char_ptr \<Rightarrow> gr_ctx_struct" where
  "poly_ctx limit name =
     \<lparr>which_ring = GR_CTX_GR_POLY, base_ring = 0, degree_limit = limit, var = name\<rparr>"

definition other_ctx :: "ring_kind \<Rightarrow> gr_ctx_struct" where
  "other_ctx kind = \<lparr>which_ring = kind, base_ring = 0, degree_limit = WORD_MAX, var = NULL\<rparr>"

definition example_ctxs :: "addr \<Rightarrow> gr_ctx_struct" where
  "example_ctxs a =
     (if a = 0 then other_ctx (GR_CTX_OTHER 0)
      else if a = 2 then poly_ctx WORD_MAX default_var
      else if a = 3 then poly_ctx 3 default_var
      else if a = 4 then poly_ctx WORD_MAX (Buf ''y'')
      else if a = 5 then other_ctx GR_CTX_GR_VEC
      else if a = 6 then other_ctx GR_CTX_FMPZ_POLY
      else if a = 7 then other_ctx GR_CTX_FMPQ_POLY
      else other_ctx (GR_CTX_OTHER 1))"

definition machine_of :: "int obj list \<Rightarrow> int machine" where
  \<comment> \<open>the objects of the list at the addresses 0, 1, ... and the stack mark above them\<close>
  "machine_of objs =
     \<lparr>ctx_at = example_ctxs,
      obj_at = (\<lambda>a. if a < length objs then objs ! a else Seq [] 0),
      sp = length objs\<rparr>"

section \<open>Basic facts about the store\<close>

lemma ctx_at_store [simp]: "ctx_at (store s a v) = ctx_at s"
  by (simp add: store_def)

lemma obj_at_store [simp]: "obj_at (store s a v) b = (if b = a then v else obj_at s b)"
  by (simp add: store_def)

lemma sp_store [simp]: "sp (store s a v) = sp s"
  by (simp add: store_def)

lemma obj_at_end_local [simp]: "obj_at (end_local s) = obj_at s"
  by (simp add: end_local_def)

lemma coeffs_mk_poly [simp]: "coeffs (mk_poly cs) = cs"
  by (simp add: coeffs_def mk_poly_def)

lemma local_poly [simp]:
  "fst (local_var s) = sp s"
  "gr_poly_init (snd (local_var s)) (sp s) e = with_scratch_poly s"
  by (simp_all add: gr_poly_init_def local_var_def with_scratch_poly_def)

lemma elem_ctx_simps [simp]:
  "POLYNOMIAL_ELEM_CTX (store s a v) ctx = POLYNOMIAL_ELEM_CTX s ctx"
  "POLYNOMIAL_ELEM_CTX (with_scratch_poly s) ctx = POLYNOMIAL_ELEM_CTX s ctx"
  "POLYNOMIAL_ELEM_CTX (snd (local_var s)) ctx = POLYNOMIAL_ELEM_CTX s ctx"
  by (simp_all add: POLYNOMIAL_ELEM_CTX_def POLYNOMIAL_CTX_def with_scratch_poly_def local_var_def)

lemma divrem_result:
  "gr_poly_divrem L s Q R A B e =
     (fst (poly_divrem_impl L s Q R A B e),
      store (store s Q (mk_poly (fst (snd (poly_divrem_impl L s Q R A B e)))))
        R (mk_poly (snd (snd (poly_divrem_impl L s Q R A B e)))))"
  by (simp add: gr_poly_divrem_def split: prod.splits)

lemmas example_defs =
  machine_of_def example_ctxs_def poly_ctx_def other_ctx_def mk_poly_def poly_length_def
  POLYNOMIAL_CTX_def POLYNOMIAL_ELEM_CTX_def VECTOR_CTX_def WORD_MAX_def default_var_def
  GR_SUCCESS_def GR_DOMAIN_def GR_UNABLE_def

lemmas ZZ_defs =
  ZZ_def ZZ_divrem_def ZZ_div_scalar_def ZZ_set_native_def
  ZZ_set_other_def poly_at_def elem_at_def

section \<open>The degree limit of multiplication\<close>

text \<open>
  Claim C2. In a context whose degree limit is set (it differs from \<^verbatim>\<open>WORD_MAX\<close>),
  multiplying two polynomials that are both nonzero and whose lengths add up to more than
  the limit returns Unable and leaves the whole state as it was: operands, result and
  everything else. When no limit is set, or an operand has length 0, or the lengths add
  up to at most the limit, the call is the library's multiplication over the base ring.
\<close>

theorem polynomial_mul_degree_limit:
  "(degree_limit (ctx_at s ctx) \<noteq> WORD_MAX \<and> poly_length s a \<noteq> 0 \<and> poly_length s b \<noteq> 0 \<and>
      int (poly_length s a + poly_length s b) > sint (degree_limit (ctx_at s ctx))
    \<longrightarrow> polynomial_mul L s res a b ctx = (GR_UNABLE, s)) \<and>
   (degree_limit (ctx_at s ctx) = WORD_MAX \<or> poly_length s a = 0 \<or> poly_length s b = 0 \<or>
      int (poly_length s a + poly_length s b) \<le> sint (degree_limit (ctx_at s ctx))
    \<longrightarrow> polynomial_mul L s res a b ctx = gr_poly_mul L s res a b (POLYNOMIAL_ELEM_CTX s ctx))"
  by (auto simp: polynomial_mul_def POLYNOMIAL_CTX_def)

text \<open>
  With limit 3, \<open>(x + 1) (x - 1)\<close> is refused (2 + 2 > 3) and nothing changes; without a
  limit the product \<open>x\<^sup>2 - 1\<close> is computed.
\<close>

theorem polynomial_mul_degree_limit_witness:
  "polynomial_mul ZZ (machine_of [Seq [] 0, Scalar 7, mk_poly [1, 1], mk_poly [- 1, 1]]) 0 2 3 3
     = (GR_UNABLE, machine_of [Seq [] 0, Scalar 7, mk_poly [1, 1], mk_poly [- 1, 1]]) \<and>
   result_of 0
     (polynomial_mul ZZ (machine_of [Seq [] 0, Scalar 7, mk_poly [1, 1], mk_poly [- 1, 1]]) 0 2 3 2)
     = (GR_SUCCESS, [- 1, 0, 1])"
proof -
  let ?s = "machine_of [Seq [] 0, Scalar 7, mk_poly [1, 1], mk_poly [- 1, 1]]"
  have refused: "degree_limit (ctx_at ?s 3) \<noteq> WORD_MAX \<and> poly_length ?s 2 \<noteq> 0 \<and>
      poly_length ?s 3 \<noteq> 0 \<and>
      int (poly_length ?s 2 + poly_length ?s 3) > sint (degree_limit (ctx_at ?s 3))"
    by (simp add: example_defs)
  have free: "degree_limit (ctx_at ?s 2) = WORD_MAX"
    by (simp add: example_defs)
  have "gr_poly_mul ZZ ?s 0 2 3 (POLYNOMIAL_ELEM_CTX ?s 2)
          = (GR_SUCCESS, store ?s 0 (mk_poly [- 1, 0, 1]))"
    by (simp add: gr_poly_mul_def ret_poly_def ZZ_def poly_at_def coeffs_def example_defs)
  with refused free polynomial_mul_degree_limit [of ?s 3 2 3 ZZ 0]
    polynomial_mul_degree_limit [of ?s 2 2 3 ZZ 0]
  show ?thesis
    by (simp add: result_of_def)
qed

section \<open>Context predicates\<close>

lemmas ctx_predicate_defs =
  polynomial_ctx_is_ring_def polynomial_ctx_is_commutative_ring_def
  polynomial_ctx_is_integral_domain_def polynomial_ctx_is_unique_factorization_domain_def
  polynomial_ctx_is_rational_vector_space_def polynomial_ctx_is_real_vector_space_def
  polynomial_ctx_is_complex_vector_space_def polynomial_ctx_is_threadsafe_def
  gr_generic_ctx_predicate_false_def

text \<open>
  Claim C6. Dispatching a context predicate on a polynomial-ring context gives, for
  is-ring, is-commutative-ring, is-integral-domain, is-UFD, is-rational-, is-real- and
  is-complex-vector-space and is-threadsafe, the value of the same predicate of the base
  ring; for is-field it gives false, whatever the base ring is.
\<close>

theorem ctx_predicates_forwarded:
  "gr_poly_ctx_predicate GR_METHOD_CTX_IS_RING L s ctx
     = Some (gr_ctx_is_ring L s (POLYNOMIAL_ELEM_CTX s ctx)) \<and>
   gr_poly_ctx_predicate GR_METHOD_CTX_IS_COMMUTATIVE_RING L s ctx
     = Some (gr_ctx_is_commutative_ring L s (POLYNOMIAL_ELEM_CTX s ctx)) \<and>
   gr_poly_ctx_predicate GR_METHOD_CTX_IS_INTEGRAL_DOMAIN L s ctx
     = Some (gr_ctx_is_integral_domain L s (POLYNOMIAL_ELEM_CTX s ctx)) \<and>
   gr_poly_ctx_predicate GR_METHOD_CTX_IS_UNIQUE_FACTORIZATION_DOMAIN L s ctx
     = Some (gr_ctx_is_unique_factorization_domain L s (POLYNOMIAL_ELEM_CTX s ctx)) \<and>
   gr_poly_ctx_predicate GR_METHOD_CTX_IS_RATIONAL_VECTOR_SPACE L s ctx
     = Some (gr_ctx_is_rational_vector_space L s (POLYNOMIAL_ELEM_CTX s ctx)) \<and>
   gr_poly_ctx_predicate GR_METHOD_CTX_IS_REAL_VECTOR_SPACE L s ctx
     = Some (gr_ctx_is_real_vector_space L s (POLYNOMIAL_ELEM_CTX s ctx)) \<and>
   gr_poly_ctx_predicate GR_METHOD_CTX_IS_COMPLEX_VECTOR_SPACE L s ctx
     = Some (gr_ctx_is_complex_vector_space L s (POLYNOMIAL_ELEM_CTX s ctx)) \<and>
   gr_poly_ctx_predicate GR_METHOD_CTX_IS_THREADSAFE L s ctx
     = Some (gr_ctx_is_threadsafe L s (POLYNOMIAL_ELEM_CTX s ctx)) \<and>
   gr_poly_ctx_predicate GR_METHOD_CTX_IS_FIELD L s ctx = Some T_FALSE"
  by (simp add: gr_poly_ctx_predicate_def gr_poly_methods_def gr_poly_methods_input_def
      ctx_predicate_defs)

section \<open>Powers\<close>

text \<open>
  Claim C7. Raising to a signed machine-integer exponent \<open>e\<close> is raising to the
  arbitrary-precision integer equal to \<open>e\<close>: the same status and the same state.
\<close>

theorem polynomial_pow_si_is_pow_fmpz:
  "polynomial_pow_si L s res poly e ctx = polynomial_pow_fmpz L s res poly (sint e) ctx"
  by (simp add: polynomial_pow_si_def polynomial_pow_fmpz_def fmpz_init_set_si_def)

section \<open>Generator names\<close>

lemma set_gen_name_effect:
  "gr_gr_poly_ctx_set_gen_name s ctx name =
     (GR_SUCCESS, s\<lparr>ctx_at := (ctx_at s)(ctx := (ctx_at s ctx)\<lparr>var := Buf name\<rparr>)\<rparr>)"
  by (simp add: gr_gr_poly_ctx_set_gen_name_def Let_def flint_realloc_def memcpy_def strlen_def)

text \<open>
  Claim C10. On an array of names with at least one entry, the setter for several names
  is the setter for one name applied to the first entry; the entries after the first
  make no difference.
\<close>

theorem set_gen_names_first_only:
  "gr_gr_poly_ctx_set_gen_names s ctx (s0 # rest) = Some (gr_gr_poly_ctx_set_gen_name s ctx s0) \<and>
   gr_gr_poly_ctx_set_gen_names s ctx (s0 # rest) = gr_gr_poly_ctx_set_gen_names s ctx [s0]"
  by (simp add: gr_gr_poly_ctx_set_gen_names_def)

section \<open>Euclidean division\<close>

text \<open>
  Claim C8. For a result polynomial \<open>res\<close> of the caller, Euclidean division leaves in
  \<open>res\<close> the quotient that Euclidean division with remainder leaves there, with the same
  status, and the Euclidean remainder leaves in \<open>res\<close> the remainder, with the same
  status: each is the one long division of the library, whose other half goes to a
  freshly initialised local polynomial at the stack mark.
\<close>

theorem euclidean_div_rem_of_divrem:
  assumes "res < sp s"
  shows "result_of res (polynomial_euclidean_div L s res x y ctx)
           = result_of res (polynomial_euclidean_divrem L (with_scratch_poly s) res (sp s) x y ctx) \<and>
         result_of res (polynomial_euclidean_rem L s res x y ctx)
           = result_of res (polynomial_euclidean_divrem L (with_scratch_poly s) (sp s) res x y ctx)"
proof -
  have d: "result_of res (polynomial_euclidean_div L s res x y ctx)
           = result_of res (polynomial_euclidean_divrem L (with_scratch_poly s) res (sp s) x y ctx)"
    using assms
    by (simp add: polynomial_euclidean_div_def polynomial_euclidean_divrem_def Let_def
        split_beta divrem_result result_of_def gr_poly_clear_def)
  have r: "result_of res (polynomial_euclidean_rem L s res x y ctx)
           = result_of res (polynomial_euclidean_divrem L (with_scratch_poly s) (sp s) res x y ctx)"
    using assms
    by (simp add: polynomial_euclidean_rem_def polynomial_euclidean_divrem_def Let_def
        split_beta divrem_result result_of_def gr_poly_clear_def)
  from d r show ?thesis ..
qed

text \<open>Over the integers, \<open>x\<^sup>2 + 1 = (x - 1) (x + 1) + 2\<close>.\<close>

theorem euclidean_div_rem_of_divrem_witness:
  "(0::nat) < sp (machine_of [Seq [] 0, Scalar 7, mk_poly [1, 0, 1], mk_poly [1, 1]]) \<and>
   result_of 0 (polynomial_euclidean_div ZZ
       (machine_of [Seq [] 0, Scalar 7, mk_poly [1, 0, 1], mk_poly [1, 1]]) 0 2 3 2)
     = (GR_SUCCESS, [- 1, 1]) \<and>
   result_of 0 (polynomial_euclidean_rem ZZ
       (machine_of [Seq [] 0, Scalar 7, mk_poly [1, 0, 1], mk_poly [1, 1]]) 0 2 3 2)
     = (GR_SUCCESS, [2])"
proof -
  let ?s = "machine_of [Seq [] 0, Scalar 7, mk_poly [1, 0, 1], mk_poly [1, 1]]"
  have live: "0 < sp ?s" and mark: "sp ?s = 4"
    by (simp_all add: machine_of_def)
  have "result_of 0 (polynomial_euclidean_divrem ZZ (with_scratch_poly ?s) 0 4 2 3 2)
          = (GR_SUCCESS, [- 1, 1])"
       "result_of 0 (polynomial_euclidean_divrem ZZ (with_scratch_poly ?s) 4 0 2 3 2)
          = (GR_SUCCESS, [2])"
    by (simp_all add: polynomial_euclidean_divrem_def divrem_result result_of_def
        ZZ_defs with_scratch_poly_def example_defs coeffs_def Let_def)
  with euclidean_div_rem_of_divrem [OF live, of ZZ 2 3 2] live mark show ?thesis
    by simp
qed

section \<open>Coercion from another ring\<close>

lemma fit_length_slots:
  "\<exists>a sl. slots (obj_at (gr_poly_fit_length L s res (Suc 0) e) res) = a # sl"
  by (cases "slots (obj_at s res)") (simp_all add: gr_poly_fit_length_def Let_def)

lemma fit_length_ctx [simp]: "ctx_at (gr_poly_fit_length L s res n e) = ctx_at s"
  by (simp add: gr_poly_fit_length_def Let_def)

text \<open>
  Claim C3. The status of \<^verbatim>\<open>set_other\<close> and the polynomial it leaves in \<open>res\<close> are those
  of the first rule of the ordered list that applies (same context: plain copy; base-ring
  context: constant polynomial; polynomial ring with the same generator name:
  coefficient-wise coercion; big-integer or big-rational polynomials: bulk conversion;
  generic vector: entries as coefficients), and, when none applies, those of the scalar
  fallback: the coerced scalar as a constant polynomial, or the zero polynomial when the
  coercion fails, with the coercion's status either way.
\<close>

theorem set_other_decision_chain:
  "result_of res (polynomial_set_other L s res x x_ctx ctx) = spec_set_other L s res x x_ctx ctx"
proof -
  obtain a sl where
    sl: "slots (obj_at (gr_poly_fit_length L s res (Suc 0) (base_ring (ctx_at s ctx))) res) = a # sl"
    using fit_length_slots [of L s res "base_ring (ctx_at s ctx)"] by blast
  show ?thesis
    unfolding polynomial_set_other_def spec_set_other_def coercion_rules_def scalar_fallback_def
    by (simp add: Let_def split_beta polynomial_set_def gr_poly_set_def gr_poly_set_scalar_def
      gr_poly_set_gr_poly_other_def gr_poly_set_fmpz_poly_def gr_poly_set_fmpq_poly_def
      POLYNOMIAL_ELEM_CTX_def POLYNOMIAL_CTX_def VECTOR_CTX_def strcmp0_def local_var_def
      with_entries_as_poly_def store_def ret_poly_def result_of_def
      gr_set_other_def ret_elem_def store_elem_def
      gr_poly_set_length_def gr_poly_normalise_def coeffs_def degree0_def sl mk_poly_def)
qed

text \<open>
  A scalar of another ring of scalars goes through the fallback; the entries \<open>1, 2, 0\<close> of
  a vector become the polynomial \<open>1 + 2 x\<close>; a sequence handed over as a scalar of the ring
  with generator \<open>y\<close> is refused and leaves the zero polynomial.
\<close>

lemmas run_defs =
  polynomial_set_other_def polynomial_set_def polynomial_mul_def
  gr_poly_set_def gr_poly_set_scalar_def gr_poly_set_gr_poly_other_def
  gr_poly_set_fmpz_poly_def gr_poly_set_fmpq_poly_def gr_poly_mul_def gr_poly_mul_scalar_def
  gr_poly_scalar_mul_def gr_set_other_def gr_poly_fit_length_def gr_poly_set_length_def
  gr_poly_normalise_def ret_poly_def ret_elem_def store_elem_def result_of_def
  with_scratch_poly_def local_var_def strcmp0_def same_polynomial_ring_def coeffs_def Let_def

theorem set_other_decision_chain_witness:
  "result_of 0 (polynomial_set_other ZZ
       (machine_of [Seq [7] 1, Scalar 7, Seq [1, 2, 0] 3, mk_poly [- 1, 1], Scalar 5]) 0 4 9 2)
     = (GR_SUCCESS, [5]) \<and>
   result_of 0 (polynomial_set_other ZZ
       (machine_of [Seq [7] 1, Scalar 7, Seq [1, 2, 0] 3, mk_poly [- 1, 1], Scalar 5]) 0 2 5 2)
     = (GR_SUCCESS, [1, 2]) \<and>
   result_of 0 (polynomial_set_other ZZ
       (machine_of [Seq [7] 1, Scalar 7, Seq [1, 2, 0] 3, mk_poly [- 1, 1], Scalar 5]) 0 3 4 2)
     = (GR_DOMAIN, [])"
proof -
  let ?s = "machine_of [Seq [7] 1, Scalar 7, Seq [1, 2, 0] 3, mk_poly [- 1, 1], Scalar 5]"
  have "spec_set_other ZZ ?s 0 4 9 2 = (GR_SUCCESS, [5])"
    by (simp add: spec_set_other_def coercion_rules_def scalar_fallback_def degree0_def
        with_entries_as_poly_def run_defs ZZ_defs example_defs)
  moreover have "spec_set_other ZZ ?s 0 2 5 2 = (GR_SUCCESS, [1, 2])"
    by (simp add: spec_set_other_def coercion_rules_def scalar_fallback_def degree0_def
        with_entries_as_poly_def run_defs ZZ_defs example_defs)
  moreover have "spec_set_other ZZ ?s 0 3 4 2 = (GR_DOMAIN, [])"
    by (simp add: spec_set_other_def coercion_rules_def scalar_fallback_def degree0_def
        with_entries_as_poly_def run_defs ZZ_defs example_defs)
  ultimately show ?thesis
    using set_other_decision_chain [of 0 ZZ ?s 4 9 2] set_other_decision_chain [of 0 ZZ ?s 2 5 2]
      set_other_decision_chain [of 0 ZZ ?s 3 4 2]
    by simp
qed

section \<open>Multiplication by an element of another ring\<close>

lemma sp_end_local_local [simp]: "sp (end_local (store (s\<lparr>sp := Suc n\<rparr>) a v)) = n"
  by (simp add: end_local_def)

lemma set_other_frame:
  "a \<noteq> res \<Longrightarrow> a \<noteq> sp s \<Longrightarrow>
   obj_at (snd (polynomial_set_other L s res x x_ctx ctx)) a = obj_at s a"
  by (simp add: polynomial_set_other_def Let_def split_beta polynomial_set_def gr_poly_set_def
      gr_poly_set_scalar_def gr_poly_set_gr_poly_other_def gr_poly_set_fmpz_poly_def
      gr_poly_set_fmpq_poly_def ret_poly_def local_var_def end_local_def
      gr_set_other_def ret_elem_def store_elem_def gr_poly_set_length_def gr_poly_normalise_def
      gr_poly_fit_length_def)

lemma mul_other_coerced:
  assumes "x_ctx \<noteq> POLYNOMIAL_ELEM_CTX s ctx" and "\<not> same_polynomial_ring s x_ctx ctx"
  shows "polynomial_mul_other L s res poly x x_ctx ctx =
     (let coerced = polynomial_set_other L (with_scratch_poly s) (sp s) x x_ctx ctx;
          r = (if fst coerced = GR_SUCCESS then polynomial_mul L (snd coerced) res poly (sp s) ctx
               else coerced)
      in (fst r, end_local (polynomial_clear (snd r) (sp s) ctx)))"
  using assms
  by (auto simp add: polynomial_mul_other_def same_polynomial_ring_def POLYNOMIAL_ELEM_CTX_def
      POLYNOMIAL_CTX_def strcmp0_def Let_def split_beta polynomial_init_def)

lemma other_mul_coerced:
  assumes "x_ctx \<noteq> POLYNOMIAL_ELEM_CTX s ctx" and "\<not> same_polynomial_ring s x_ctx ctx"
  shows "polynomial_other_mul L s res x x_ctx poly ctx =
     (let coerced = polynomial_set_other L (with_scratch_poly s) (sp s) x x_ctx ctx;
          r = (if fst coerced = GR_SUCCESS then polynomial_mul L (snd coerced) res (sp s) poly ctx
               else coerced)
      in (fst r, end_local (polynomial_clear (snd r) (sp s) ctx)))"
  using assms
  by (auto simp add: polynomial_other_mul_def same_polynomial_ring_def POLYNOMIAL_ELEM_CTX_def
      POLYNOMIAL_CTX_def strcmp0_def Let_def split_beta polynomial_init_def)

lemma scratch_untouched:
  "res < sp s \<Longrightarrow>
   obj_at (snd (polynomial_set_other L (with_scratch_poly s) (sp s) x x_ctx ctx)) res = obj_at s res"
  using set_other_frame [of res "sp s" "with_scratch_poly s" L x x_ctx ctx]
  by (simp add: with_scratch_poly_def)

text \<open>
  Claim C4. For a result polynomial \<open>res\<close> of the caller: when the context of \<open>x\<close> is the
  base-ring context, \<^verbatim>\<open>mul_other\<close> and \<^verbatim>\<open>other_mul\<close> are the library's multiplication of
  every coefficient by the scalar; else, when it is a polynomial ring over the same base
  ring with the same generator name, they are the multiplication of two polynomials of
  this ring; else \<open>x\<close> is coerced by \<^verbatim>\<open>set_other\<close> into a local polynomial, and either the
  coercion succeeds and the result is that of multiplying by the local polynomial, or it
  fails, its status is returned and \<open>res\<close> holds what it held before.
\<close>

theorem mul_other_cases:
  assumes "res < sp s"
  shows
  "(x_ctx = POLYNOMIAL_ELEM_CTX s ctx \<longrightarrow>
      polynomial_mul_other L s res poly x x_ctx ctx = gr_poly_mul_scalar L s res poly (Obj x) x_ctx \<and>
      polynomial_other_mul L s res x x_ctx poly ctx = gr_poly_scalar_mul L s res (Obj x) poly x_ctx) \<and>
   (x_ctx \<noteq> POLYNOMIAL_ELEM_CTX s ctx \<and> same_polynomial_ring s x_ctx ctx \<longrightarrow>
      polynomial_mul_other L s res poly x x_ctx ctx = polynomial_mul L s res poly x ctx \<and>
      polynomial_other_mul L s res x x_ctx poly ctx = polynomial_mul L s res x poly ctx) \<and>
   (x_ctx \<noteq> POLYNOMIAL_ELEM_CTX s ctx \<and> \<not> same_polynomial_ring s x_ctx ctx \<longrightarrow>
      (let coerced = polynomial_set_other L (with_scratch_poly s) (sp s) x x_ctx ctx
       in if fst coerced = GR_SUCCESS
          then result_of res (polynomial_mul_other L s res poly x x_ctx ctx)
                 = result_of res (polynomial_mul L (snd coerced) res poly (sp s) ctx) \<and>
               result_of res (polynomial_other_mul L s res x x_ctx poly ctx)
                 = result_of res (polynomial_mul L (snd coerced) res (sp s) poly ctx)
          else fst (polynomial_mul_other L s res poly x x_ctx ctx) = fst coerced \<and>
               obj_at (snd (polynomial_mul_other L s res poly x x_ctx ctx)) res = obj_at s res \<and>
               fst (polynomial_other_mul L s res x x_ctx poly ctx) = fst coerced \<and>
               obj_at (snd (polynomial_other_mul L s res x x_ctx poly ctx)) res = obj_at s res))"
proof -
  have scalar: "x_ctx = POLYNOMIAL_ELEM_CTX s ctx \<longrightarrow>
      polynomial_mul_other L s res poly x x_ctx ctx = gr_poly_mul_scalar L s res poly (Obj x) x_ctx \<and>
      polynomial_other_mul L s res x x_ctx poly ctx = gr_poly_scalar_mul L s res (Obj x) poly x_ctx"
    by (simp add: polynomial_mul_other_def polynomial_other_mul_def)
  have same: "x_ctx \<noteq> POLYNOMIAL_ELEM_CTX s ctx \<and> same_polynomial_ring s x_ctx ctx \<longrightarrow>
      polynomial_mul_other L s res poly x x_ctx ctx = polynomial_mul L s res poly x ctx \<and>
      polynomial_other_mul L s res x x_ctx poly ctx = polynomial_mul L s res x poly ctx"
    by (simp add: polynomial_mul_other_def polynomial_other_mul_def same_polynomial_ring_def
        POLYNOMIAL_ELEM_CTX_def POLYNOMIAL_CTX_def strcmp0_def)
  have other: "x_ctx \<noteq> POLYNOMIAL_ELEM_CTX s ctx \<and> \<not> same_polynomial_ring s x_ctx ctx \<longrightarrow>
      (let coerced = polynomial_set_other L (with_scratch_poly s) (sp s) x x_ctx ctx
       in if fst coerced = GR_SUCCESS
          then result_of res (polynomial_mul_other L s res poly x x_ctx ctx)
                 = result_of res (polynomial_mul L (snd coerced) res poly (sp s) ctx) \<and>
               result_of res (polynomial_other_mul L s res x x_ctx poly ctx)
                 = result_of res (polynomial_mul L (snd coerced) res (sp s) poly ctx)
          else fst (polynomial_mul_other L s res poly x x_ctx ctx) = fst coerced \<and>
               obj_at (snd (polynomial_mul_other L s res poly x x_ctx ctx)) res = obj_at s res \<and>
               fst (polynomial_other_mul L s res x x_ctx poly ctx) = fst coerced \<and>
               obj_at (snd (polynomial_other_mul L s res x x_ctx poly ctx)) res = obj_at s res)"
  proof (intro impI, elim conjE)
    assume a: "x_ctx \<noteq> POLYNOMIAL_ELEM_CTX s ctx" "\<not> same_polynomial_ring s x_ctx ctx"
    have ne: "res \<noteq> sp s"
      using assms by simp
    show "let coerced = polynomial_set_other L (with_scratch_poly s) (sp s) x x_ctx ctx
       in if fst coerced = GR_SUCCESS
          then result_of res (polynomial_mul_other L s res poly x x_ctx ctx)
                 = result_of res (polynomial_mul L (snd coerced) res poly (sp s) ctx) \<and>
               result_of res (polynomial_other_mul L s res x x_ctx poly ctx)
                 = result_of res (polynomial_mul L (snd coerced) res (sp s) poly ctx)
          else fst (polynomial_mul_other L s res poly x x_ctx ctx) = fst coerced \<and>
               obj_at (snd (polynomial_mul_other L s res poly x x_ctx ctx)) res = obj_at s res \<and>
               fst (polynomial_other_mul L s res x x_ctx poly ctx) = fst coerced \<and>
               obj_at (snd (polynomial_other_mul L s res x x_ctx poly ctx)) res = obj_at s res"
      using ne scratch_untouched [OF assms, of L x x_ctx ctx]
      by (simp add: mul_other_coerced [OF a] other_mul_coerced [OF a] Let_def
          result_of_def polynomial_clear_def gr_poly_clear_def)
  qed
  from scalar same other show ?thesis by blast
qed

text \<open>
  The scalar 5 of the base ring; \<open>(x + 1) (x - 1)\<close> in the ring itself; a sequence handed
  over as an element of the ring with generator \<open>y\<close>, which the fallback refuses; the
  scalar 5 of another ring of scalars, coerced first.
\<close>

theorem mul_other_cases_witness:
  "(0::nat) < sp (machine_of [Seq [] 0, Scalar 7, mk_poly [1, 1], mk_poly [- 1, 1], Scalar 5]) \<and>
   result_of 0 (polynomial_mul_other ZZ
       (machine_of [Seq [] 0, Scalar 7, mk_poly [1, 1], mk_poly [- 1, 1], Scalar 5]) 0 2 4 0 2)
     = (GR_SUCCESS, [5, 5]) \<and>
   result_of 0 (polynomial_other_mul ZZ
       (machine_of [Seq [] 0, Scalar 7, mk_poly [1, 1], mk_poly [- 1, 1], Scalar 5]) 0 4 0 2 2)
     = (GR_SUCCESS, [5, 5]) \<and>
   result_of 0 (polynomial_mul_other ZZ
       (machine_of [Seq [] 0, Scalar 7, mk_poly [1, 1], mk_poly [- 1, 1], Scalar 5]) 0 2 3 2 2)
     = (GR_SUCCESS, [- 1, 0, 1]) \<and>
   fst (polynomial_mul_other ZZ
       (machine_of [Seq [] 0, Scalar 7, mk_poly [1, 1], mk_poly [- 1, 1], Scalar 5]) 0 2 3 4 2)
     = GR_DOMAIN \<and>
   obj_at (snd (polynomial_mul_other ZZ
       (machine_of [Seq [] 0, Scalar 7, mk_poly [1, 1], mk_poly [- 1, 1], Scalar 5]) 0 2 3 4 2)) 0
     = Seq [] 0 \<and>
   result_of 0 (polynomial_other_mul ZZ
       (machine_of [Seq [] 0, Scalar 7, mk_poly [1, 1], mk_poly [- 1, 1], Scalar 5]) 0 4 9 2 2)
     = (GR_SUCCESS, [5, 5])"
proof -
  let ?s = "machine_of [Seq [] 0, Scalar 7, mk_poly [1, 1], mk_poly [- 1, 1], Scalar 5]"
  have live: "0 < sp ?s"
    by (simp add: machine_of_def)
  have base: "(0::nat) = POLYNOMIAL_ELEM_CTX ?s 2"
    by (simp add: example_defs)
  have same: "(2::nat) \<noteq> POLYNOMIAL_ELEM_CTX ?s 2 \<and> same_polynomial_ring ?s 2 2"
    by (simp add: example_defs same_polynomial_ring_def)
  have other_y: "(4::nat) \<noteq> POLYNOMIAL_ELEM_CTX ?s 2 \<and> \<not> same_polynomial_ring ?s 4 2"
    by (simp add: example_defs same_polynomial_ring_def)
  have other_9: "(9::nat) \<noteq> POLYNOMIAL_ELEM_CTX ?s 2 \<and> \<not> same_polynomial_ring ?s 9 2"
    by (simp add: example_defs same_polynomial_ring_def)
  have fails: "fst (polynomial_set_other ZZ (with_scratch_poly ?s) (sp ?s) 3 4 2) = GR_DOMAIN"
    by (simp add: run_defs ZZ_defs example_defs)
  have coerces: "fst (polynomial_set_other ZZ (with_scratch_poly ?s) (sp ?s) 4 9 2) = GR_SUCCESS"
    by (simp add: run_defs ZZ_defs example_defs)
  have r1: "result_of 0 (gr_poly_mul_scalar ZZ ?s 0 2 (Obj 4) 0) = (GR_SUCCESS, [5, 5])"
    by (simp add: run_defs ZZ_defs example_defs)
  have r2: "result_of 0 (gr_poly_scalar_mul ZZ ?s 0 (Obj 4) 2 0) = (GR_SUCCESS, [5, 5])"
    by (simp add: run_defs ZZ_defs example_defs)
  have r3: "result_of 0 (polynomial_mul ZZ ?s 0 2 3 2) = (GR_SUCCESS, [- 1, 0, 1])"
    by (simp add: run_defs ZZ_defs example_defs)
  have r4: "result_of 0 (polynomial_mul ZZ
                (snd (polynomial_set_other ZZ (with_scratch_poly ?s) (sp ?s) 4 9 2)) 0 (sp ?s) 2 2)
              = (GR_SUCCESS, [5, 5])"
    by (simp add: run_defs ZZ_defs example_defs)
  have init: "obj_at ?s 0 = Seq [] 0"
    by (simp add: machine_of_def)
  from mul_other_cases [OF live, of 0 2 ZZ 2 4] base r1 r2
  have a: "result_of 0 (polynomial_mul_other ZZ ?s 0 2 4 0 2) = (GR_SUCCESS, [5, 5]) \<and>
           result_of 0 (polynomial_other_mul ZZ ?s 0 4 0 2 2) = (GR_SUCCESS, [5, 5])"
    by simp
  from mul_other_cases [OF live, of 2 2 ZZ 2 3] same r3
  have b: "result_of 0 (polynomial_mul_other ZZ ?s 0 2 3 2 2) = (GR_SUCCESS, [- 1, 0, 1])"
    by simp
  from mul_other_cases [OF live, of 4 2 ZZ 2 3] other_y fails init
  have c: "fst (polynomial_mul_other ZZ ?s 0 2 3 4 2) = GR_DOMAIN \<and>
           obj_at (snd (polynomial_mul_other ZZ ?s 0 2 3 4 2)) 0 = Seq [] 0"
    by (simp add: Let_def GR_DOMAIN_def GR_SUCCESS_def)
  from mul_other_cases [OF live, of 9 2 ZZ 2 4] other_9 coerces r4
  have d: "result_of 0 (polynomial_other_mul ZZ ?s 0 4 9 2 2) = (GR_SUCCESS, [5, 5])"
    by (simp add: Let_def)
  from live a b c d show ?thesis
    by blast
qed

section \<open>Arithmetic with native scalars\<close>

lemma arith_native_forwards:
  "polynomial_arith_native L op s res poly c ctx
     = gr_poly_arith_native L op s res poly c (POLYNOMIAL_ELEM_CTX s ctx)"
  by (cases op; cases c)
     (simp_all add: polynomial_arith_native_def
       polynomial_add_ui_def polynomial_add_si_def polynomial_add_fmpz_def polynomial_add_fmpq_def
       polynomial_sub_ui_def polynomial_sub_si_def polynomial_sub_fmpz_def polynomial_sub_fmpq_def
       polynomial_mul_ui_def polynomial_mul_si_def polynomial_mul_fmpz_def polynomial_mul_fmpq_def
       gr_poly_add_ui_def gr_poly_add_si_def gr_poly_add_fmpz_def gr_poly_add_fmpq_def
       gr_poly_sub_ui_def gr_poly_sub_si_def gr_poly_sub_fmpz_def gr_poly_sub_fmpq_def
       gr_poly_mul_ui_def gr_poly_mul_si_def gr_poly_mul_fmpz_def gr_poly_mul_fmpq_def)

lemma as_degree0_poly_lib:
  "as_degree0_poly L s c ctx
     = gr_poly_set_native L (with_scratch_poly s) (sp s) c (POLYNOMIAL_ELEM_CTX s ctx)"
  by (cases c)
     (simp_all add: as_degree0_poly_def polynomial_set_native_def gr_poly_set_native_def
       polynomial_init_def Let_def split_beta polynomial_set_ui_def polynomial_set_si_def
       polynomial_set_fmpz_def polynomial_set_fmpq_def)

lemma set_native_frame:
  "ctx_at (snd (gr_poly_set_native L s t c e)) = ctx_at s"
  "sp (snd (gr_poly_set_native L s t c e)) = sp s"
  "a \<noteq> t \<Longrightarrow> obj_at (snd (gr_poly_set_native L s t c e)) a = obj_at s a"
  by (cases c; simp add: gr_poly_set_native_def gr_poly_set_ui_def gr_poly_set_si_def
       gr_poly_set_fmpz_def gr_poly_set_fmpq_def ret_poly_def)+

lemma elem_ctx_set_native [simp]:
  "POLYNOMIAL_ELEM_CTX (snd (gr_poly_set_native L s t c e)) ctx = POLYNOMIAL_ELEM_CTX s ctx"
  by (simp add: POLYNOMIAL_ELEM_CTX_def POLYNOMIAL_CTX_def set_native_frame)

lemma polynomial_arith_lib:
  assumes "\<not> (op = MUL \<and> degree_limit_refuses s a b ctx)"
  shows "polynomial_arith L op s res a b ctx
           = gr_poly_arith L op s res a b (POLYNOMIAL_ELEM_CTX s ctx)"
  using assms
  by (cases op)
     (auto simp add: polynomial_arith_def gr_poly_arith_def polynomial_add_def polynomial_sub_def
       polynomial_mul_def degree_limit_refuses_def POLYNOMIAL_CTX_def)

lemma polynomial_mul_refused:
  "degree_limit_refuses s a b ctx \<Longrightarrow> polynomial_arith L MUL s res a b ctx = (GR_UNABLE, s)"
  by (simp add: polynomial_arith_def polynomial_mul_def degree_limit_refuses_def POLYNOMIAL_CTX_def)

lemma via_degree0_poly_unfold:
  "via_degree0_poly L op s res poly c ctx =
     (let conv = as_degree0_poly L s c ctx;
          r = (if fst conv = GR_SUCCESS then polynomial_arith L op (snd conv) res poly (sp s) ctx
               else conv)
      in (fst r, end_local (polynomial_clear (snd r) (sp s) ctx)))"
  by (simp add: via_degree0_poly_def Let_def split_beta)

lemma arith_native_unfold:
  "gr_poly_arith_native L op s res poly c (POLYNOMIAL_ELEM_CTX s ctx) =
     (let conv = as_degree0_poly L s c ctx;
          r = (if fst conv = GR_SUCCESS
               then gr_poly_arith L op (snd conv) res poly (sp s) (POLYNOMIAL_ELEM_CTX s ctx)
               else conv)
      in (fst r, end_local (polynomial_clear (snd r) (sp s) ctx)))"
  by (simp add: gr_poly_arith_native_def as_degree0_poly_lib Let_def split_beta
      polynomial_clear_def gr_poly_clear_def)

text \<open>
  Claim C5, as amended. Each of the twelve scalar variants (add, sub, mul with an
  unsigned or signed machine integer, a big integer or a rational) is the library's
  scalar operation over the base ring and never consults the degree limit. It gives the
  same status and state as first converting the scalar to a polynomial of degree 0 and
  then applying the operation on two polynomials, except where the operation is
  multiplication and the degree limit refuses the product with the converted scalar:
  there the route through a polynomial of degree 0 returns Unable and leaves \<open>res\<close>, while
  the scalar variant still is the library's multiplication.
\<close>

theorem scalar_variants_as_degree0:
  "polynomial_arith_native L op s res poly c ctx
     = gr_poly_arith_native L op s res poly c (POLYNOMIAL_ELEM_CTX s ctx) \<and>
   (\<not> (op = MUL \<and> fst (as_degree0_poly L s c ctx) = GR_SUCCESS \<and>
        degree_limit_refuses (snd (as_degree0_poly L s c ctx)) poly (sp s) ctx)
    \<longrightarrow> polynomial_arith_native L op s res poly c ctx = via_degree0_poly L op s res poly c ctx) \<and>
   (op = MUL \<and> fst (as_degree0_poly L s c ctx) = GR_SUCCESS \<and>
    degree_limit_refuses (snd (as_degree0_poly L s c ctx)) poly (sp s) ctx \<and> res < sp s
    \<longrightarrow> fst (via_degree0_poly L op s res poly c ctx) = GR_UNABLE \<and>
        obj_at (snd (via_degree0_poly L op s res poly c ctx)) res = obj_at s res \<and>
        polynomial_arith_native L op s res poly c ctx
          = (let conv = as_degree0_poly L s c ctx;
                 r = gr_poly_mul L (snd conv) res poly (sp s) (POLYNOMIAL_ELEM_CTX s ctx)
             in (fst r, end_local (polynomial_clear (snd r) (sp s) ctx))))"
proof -
  let ?conv = "as_degree0_poly L s c ctx"
  have fwd: "polynomial_arith_native L op s res poly c ctx
     = gr_poly_arith_native L op s res poly c (POLYNOMIAL_ELEM_CTX s ctx)"
    by (rule arith_native_forwards)
  have e: "POLYNOMIAL_ELEM_CTX (snd ?conv) ctx = POLYNOMIAL_ELEM_CTX s ctx"
    by (simp add: as_degree0_poly_lib)
  have agree: "\<not> (op = MUL \<and> fst ?conv = GR_SUCCESS \<and> degree_limit_refuses (snd ?conv) poly (sp s) ctx)
    \<longrightarrow> polynomial_arith_native L op s res poly c ctx = via_degree0_poly L op s res poly c ctx"
  proof
    assume free: "\<not> (op = MUL \<and> fst ?conv = GR_SUCCESS \<and> degree_limit_refuses (snd ?conv) poly (sp s) ctx)"
    show "polynomial_arith_native L op s res poly c ctx = via_degree0_poly L op s res poly c ctx"
    proof (cases "fst ?conv = GR_SUCCESS")
      case True
      with free have "\<not> (op = MUL \<and> degree_limit_refuses (snd ?conv) poly (sp s) ctx)"
        by simp
      from polynomial_arith_lib [OF this] True show ?thesis
        by (simp add: fwd arith_native_unfold via_degree0_poly_unfold Let_def e)
    next
      case False
      then show ?thesis
        by (simp add: fwd arith_native_unfold via_degree0_poly_unfold Let_def)
    qed
  qed
  have differ: "op = MUL \<and> fst ?conv = GR_SUCCESS \<and>
    degree_limit_refuses (snd ?conv) poly (sp s) ctx \<and> res < sp s
    \<longrightarrow> fst (via_degree0_poly L op s res poly c ctx) = GR_UNABLE \<and>
        obj_at (snd (via_degree0_poly L op s res poly c ctx)) res = obj_at s res \<and>
        polynomial_arith_native L op s res poly c ctx
          = (let conv = as_degree0_poly L s c ctx;
                 r = gr_poly_mul L (snd conv) res poly (sp s) (POLYNOMIAL_ELEM_CTX s ctx)
             in (fst r, end_local (polynomial_clear (snd r) (sp s) ctx)))"
  proof (intro impI, elim conjE)
    assume a: "op = MUL" "fst ?conv = GR_SUCCESS"
      "degree_limit_refuses (snd ?conv) poly (sp s) ctx" "res < sp s"
    have untouched: "obj_at (snd ?conv) res = obj_at s res"
      using a(4) by (simp add: as_degree0_poly_lib set_native_frame with_scratch_poly_def)
    from a polynomial_mul_refused [OF a(3)] untouched
    show "fst (via_degree0_poly L op s res poly c ctx) = GR_UNABLE \<and>
        obj_at (snd (via_degree0_poly L op s res poly c ctx)) res = obj_at s res \<and>
        polynomial_arith_native L op s res poly c ctx
          = (let conv = as_degree0_poly L s c ctx;
                 r = gr_poly_mul L (snd conv) res poly (sp s) (POLYNOMIAL_ELEM_CTX s ctx)
             in (fst r, end_local (polynomial_clear (snd r) (sp s) ctx)))"
      by (simp add: arith_native_forwards arith_native_unfold via_degree0_poly_unfold Let_def gr_poly_arith_def
          polynomial_clear_def gr_poly_clear_def)
  qed
  from fwd agree differ show ?thesis by blast
qed

text \<open>
  With degree limit 3: \<open>(1 + x) \<cdot> 2\<close> (lengths 2 + 1) and \<open>(1 + x) + (-1)\<close> agree with the
  route through a polynomial of degree 0; \<open>(1 + 2 x + 3 x\<^sup>2) \<cdot> 2\<close> (lengths 3 + 1) is
  refused on that route and computed by the scalar variant.
\<close>

lemmas run_arith_defs =
  polynomial_arith_native_def polynomial_arith_def polynomial_set_native_def
  polynomial_add_ui_def polynomial_add_si_def polynomial_mul_ui_def polynomial_add_def
  polynomial_set_ui_def polynomial_set_si_def
  gr_poly_add_ui_def gr_poly_add_si_def gr_poly_mul_ui_def gr_poly_add_def
  gr_poly_set_ui_def gr_poly_set_si_def
  gr_poly_arith_native_def gr_poly_arith_def gr_poly_set_native_def
  via_degree0_poly_def as_degree0_poly_def
  degree_limit_refuses_def polynomial_init_def polynomial_clear_def gr_poly_init_def
  gr_poly_clear_def end_local_def

theorem scalar_variants_as_degree0_witness:
  "polynomial_mul_ui ZZ (machine_of [Seq [] 0, Scalar 7, mk_poly [1, 1], mk_poly [1, 2, 3]]) 0 2 2 3
     = via_degree0_poly ZZ MUL
         (machine_of [Seq [] 0, Scalar 7, mk_poly [1, 1], mk_poly [1, 2, 3]]) 0 2 (UI 2) 3 \<and>
   result_of 0 (polynomial_mul_ui ZZ
       (machine_of [Seq [] 0, Scalar 7, mk_poly [1, 1], mk_poly [1, 2, 3]]) 0 2 2 3)
     = (GR_SUCCESS, [2, 2]) \<and>
   polynomial_add_si ZZ (machine_of [Seq [] 0, Scalar 7, mk_poly [1, 1], mk_poly [1, 2, 3]]) 0 2 (- 1) 3
     = via_degree0_poly ZZ ADD
         (machine_of [Seq [] 0, Scalar 7, mk_poly [1, 1], mk_poly [1, 2, 3]]) 0 2 (SI (- 1)) 3 \<and>
   result_of 0 (polynomial_add_si ZZ
       (machine_of [Seq [] 0, Scalar 7, mk_poly [1, 1], mk_poly [1, 2, 3]]) 0 2 (- 1) 3)
     = (GR_SUCCESS, [0, 1]) \<and>
   fst (via_degree0_poly ZZ MUL
       (machine_of [Seq [] 0, Scalar 7, mk_poly [1, 1], mk_poly [1, 2, 3]]) 0 3 (UI 2) 3) = GR_UNABLE \<and>
   obj_at (snd (via_degree0_poly ZZ MUL
       (machine_of [Seq [] 0, Scalar 7, mk_poly [1, 1], mk_poly [1, 2, 3]]) 0 3 (UI 2) 3)) 0 = Seq [] 0 \<and>
   result_of 0 (polynomial_mul_ui ZZ
       (machine_of [Seq [] 0, Scalar 7, mk_poly [1, 1], mk_poly [1, 2, 3]]) 0 3 2 3)
     = (GR_SUCCESS, [2, 4, 6])"
proof -
  let ?s = "machine_of [Seq [] 0, Scalar 7, mk_poly [1, 1], mk_poly [1, 2, 3]]"
  have fits: "\<not> (MUL = MUL \<and> fst (as_degree0_poly ZZ ?s (UI 2) 3) = GR_SUCCESS \<and>
      degree_limit_refuses (snd (as_degree0_poly ZZ ?s (UI 2) 3)) 2 (sp ?s) 3)"
    by (simp add: run_arith_defs run_defs ZZ_defs example_defs)
  have add: "\<not> (ADD = MUL \<and> fst (as_degree0_poly ZZ ?s (SI (- 1)) 3) = GR_SUCCESS \<and>
      degree_limit_refuses (snd (as_degree0_poly ZZ ?s (SI (- 1)) 3)) 2 (sp ?s) 3)"
    by simp
  have refused: "MUL = MUL \<and> fst (as_degree0_poly ZZ ?s (UI 2) 3) = GR_SUCCESS \<and>
      degree_limit_refuses (snd (as_degree0_poly ZZ ?s (UI 2) 3)) 3 (sp ?s) 3 \<and> 0 < sp ?s"
    by (simp add: run_arith_defs run_defs ZZ_defs example_defs)
  have init: "obj_at ?s 0 = Seq [] 0"
    by (simp add: machine_of_def)
  have v1: "result_of 0 (gr_poly_arith_native ZZ MUL ?s 0 2 (UI 2) (POLYNOMIAL_ELEM_CTX ?s 3))
              = (GR_SUCCESS, [2, 2])"
    by (simp add: run_arith_defs run_defs ZZ_defs example_defs)
  have v2: "result_of 0 (gr_poly_arith_native ZZ ADD ?s 0 2 (SI (- 1)) (POLYNOMIAL_ELEM_CTX ?s 3))
              = (GR_SUCCESS, [0, 1])"
    by (simp add: run_arith_defs run_defs ZZ_defs example_defs)
  have v3: "result_of 0 (gr_poly_arith_native ZZ MUL ?s 0 3 (UI 2) (POLYNOMIAL_ELEM_CTX ?s 3))
              = (GR_SUCCESS, [2, 4, 6])"
    by (simp add: run_arith_defs run_defs ZZ_defs example_defs)
  from scalar_variants_as_degree0 [of ZZ MUL ?s 0 2 "UI 2" 3] fits v1
  have a: "polynomial_mul_ui ZZ ?s 0 2 2 3 = via_degree0_poly ZZ MUL ?s 0 2 (UI 2) 3 \<and>
           result_of 0 (polynomial_mul_ui ZZ ?s 0 2 2 3) = (GR_SUCCESS, [2, 2])"
    by (auto simp add: polynomial_arith_native_def)
  from scalar_variants_as_degree0 [of ZZ ADD ?s 0 2 "SI (- 1)" 3] add v2
  have b: "polynomial_add_si ZZ ?s 0 2 (- 1) 3 = via_degree0_poly ZZ ADD ?s 0 2 (SI (- 1)) 3 \<and>
           result_of 0 (polynomial_add_si ZZ ?s 0 2 (- 1) 3) = (GR_SUCCESS, [0, 1])"
    by (auto simp add: polynomial_arith_native_def)
  from scalar_variants_as_degree0 [of ZZ MUL ?s 0 3 "UI 2" 3] refused v3 init
  have c: "fst (via_degree0_poly ZZ MUL ?s 0 3 (UI 2) 3) = GR_UNABLE \<and>
           obj_at (snd (via_degree0_poly ZZ MUL ?s 0 3 (UI 2) 3)) 0 = Seq [] 0 \<and>
           result_of 0 (polynomial_mul_ui ZZ ?s 0 3 2 3) = (GR_SUCCESS, [2, 4, 6])"
    by (auto simp add: polynomial_arith_native_def)
  from a b c show ?thesis
    by blast
qed

text \<open>
  Counterexample to C5 as stated, where a degree limit is set: with limit 3, \<open>(1 + 2 x + 3 x\<^sup>2) \<cdot> 2\<close>
  is computed by the scalar variant, while the route through a polynomial of degree 0 is
  refused (3 + 1 > 3) with Unable and leaves \<open>res\<close> as it was.
\<close>

theorem scalar_variant_ignores_degree_limit:
  "result_of 0 (polynomial_arith_native ZZ MUL
       (machine_of [Seq [] 0, Scalar 7, mk_poly [1, 2, 3]]) 0 2 (UI 2) 3) = (GR_SUCCESS, [2, 4, 6]) \<and>
   result_of 0 (via_degree0_poly ZZ MUL
       (machine_of [Seq [] 0, Scalar 7, mk_poly [1, 2, 3]]) 0 2 (UI 2) 3) = (GR_UNABLE, []) \<and>
   result_of 0 (polynomial_arith_native ZZ MUL
       (machine_of [Seq [] 0, Scalar 7, mk_poly [1, 2, 3]]) 0 2 (UI 2) 3)
     \<noteq> result_of 0 (via_degree0_poly ZZ MUL
       (machine_of [Seq [] 0, Scalar 7, mk_poly [1, 2, 3]]) 0 2 (UI 2) 3)"
proof -
  let ?s = "machine_of [Seq [] 0, Scalar 7, mk_poly [1, 2, 3]]"
  have a: "result_of 0 (polynomial_arith_native ZZ MUL ?s 0 2 (UI 2) 3) = (GR_SUCCESS, [2, 4, 6])"
    by (simp add: run_arith_defs run_defs ZZ_defs example_defs)
  have b: "result_of 0 (via_degree0_poly ZZ MUL ?s 0 2 (UI 2) 3) = (GR_UNABLE, [])"
    by (simp add: run_arith_defs run_defs ZZ_defs example_defs)
  from a b show ?thesis
    by (simp add: GR_SUCCESS_def GR_UNABLE_def)
qed

section \<open>Exact division\<close>

lemma strip_padd_zero: "strip r = [] \<Longrightarrow> strip (padd a r) = strip a"
proof (induction a r rule: padd.induct)
  case (1 ys)
  then show ?case by simp
next
  case (2 v va)
  then show ?case by simp
next
  case (3 x xs y ys)
  then show ?case
    by (simp add: Let_def split: if_splits)
qed

lemma division_law:
  assumes "peq xs (padd (pmul q ys) r)" and "peq r []"
  shows "peq xs (pmul q ys)"
  using assms by (simp add: peq_def strip_padd_zero)

lemma tmp_elem [simp]:
  "GR_TMP_INIT L s e = (sp s, with_scratch_elem L s e)"
  by (simp add: GR_TMP_INIT_def local_var_def with_scratch_elem_def)

lemma elem_ctx_scratch_elem [simp]:
  "POLYNOMIAL_ELEM_CTX (with_scratch_elem L s e) ctx = POLYNOMIAL_ELEM_CTX s ctx"
  by (simp add: POLYNOMIAL_ELEM_CTX_def POLYNOMIAL_CTX_def with_scratch_elem_def)

lemma elem_ctx_ret_elem [simp]:
  "POLYNOMIAL_ELEM_CTX (snd (ret_elem s p r)) ctx = POLYNOMIAL_ELEM_CTX s ctx"
  by (cases p) (simp_all add: ret_elem_def store_elem_def)

lemma div_scalar_plain:
  "poly_length s y = 1 \<and> res \<noteq> y \<longrightarrow>
     polynomial_div L s res x y ctx = gr_poly_div_scalar L s res x (Coeff y 0) (POLYNOMIAL_ELEM_CTX s ctx)"
  by (simp add: polynomial_div_def)

lemma div_scalar_aliased:
  assumes "res < sp s"
  shows "poly_length s y = 1 \<and> res = y \<longrightarrow>
     (let e = POLYNOMIAL_ELEM_CTX s ctx;
          s1 = with_scratch_elem L s e;
          snapshot = set_impl L s1 (Obj (sp s)) (Coeff y 0) e;
          s2 = store s1 (sp s) (Scalar (snd snapshot));
          divided = poly_div_scalar_impl L s2 res x (Obj (sp s)) e
      in result_of res (polynomial_div L s res x y ctx) = (fst snapshot OR fst divided, snd divided))"
  using assms
  by (simp add: polynomial_div_def Let_def split_beta gr_set_def ret_elem_def store_elem_def
      gr_poly_div_scalar_def ret_poly_def GR_TMP_CLEAR_def result_of_def GR_SUCCESS_def)

lemma div_long_status:
  "poly_length s y \<noteq> 1 \<Longrightarrow>
   fst (polynomial_div L s res x y ctx) =
     long_division_status
       (fst (poly_divrem_impl L (with_scratch_poly s) res (sp s) x y (POLYNOMIAL_ELEM_CTX s ctx)))
       (gr_poly_is_zero L
          (snd (gr_poly_divrem L (with_scratch_poly s) res (sp s) x y (POLYNOMIAL_ELEM_CTX s ctx)))
          (sp s) (POLYNOMIAL_ELEM_CTX s ctx))"
  by (cases "gr_poly_is_zero L
          (snd (gr_poly_divrem L (with_scratch_poly s) res (sp s) x y (POLYNOMIAL_ELEM_CTX s ctx)))
          (sp s) (POLYNOMIAL_ELEM_CTX s ctx)")
     (simp_all add: polynomial_div_def Let_def split_beta divrem_result long_division_status_def
        GR_SUCCESS_def GR_DOMAIN_def GR_UNABLE_def)

lemma div_long_quotient:
  "poly_length s y \<noteq> 1 \<Longrightarrow> res < sp s \<Longrightarrow>
   coeffs (obj_at (snd (polynomial_div L s res x y ctx)) res) =
     fst (snd (poly_divrem_impl L (with_scratch_poly s) res (sp s) x y (POLYNOMIAL_ELEM_CTX s ctx)))"
  by (simp add: polynomial_div_def Let_def split_beta divrem_result gr_poly_clear_def)

text \<open>
  Claim C1, as amended. For a result polynomial \<open>res\<close> of the caller:
  when \<open>y\<close> has length 1 and \<open>res\<close> is not \<open>y\<close>, division is the library's division of every
  coefficient of \<open>x\<close> by the scalar \<open>y[0]\<close>, read in place;
  when \<open>y\<close> has length 1 and \<open>res\<close> is \<open>y\<close>, the scalar is first copied to a temporary
  element, the coefficients are divided by the copy, and the status is the OR of the two;
  when the length of \<open>y\<close> is not 1, the quotient of the library's long division is left in
  \<open>res\<close>, a failed long division returns its own status whatever the remainder holds, and
  a successful one returns Success when the remainder is proved zero, Domain-error when
  it is proved nonzero and Unable when its zero test is undecided. If the long division
  meets its contract \<open>x = q y + r\<close> and the zero test is sound, Success comes with
  \<open>x = q y\<close>.
\<close>

theorem polynomial_div_outcome:
  fixes L :: "'a::comm_ring_1 gr_lib"
  assumes live: "res < sp s"
  shows
   "(poly_length s y = 1 \<and> res \<noteq> y \<longrightarrow>
       polynomial_div L s res x y ctx
         = gr_poly_div_scalar L s res x (Coeff y 0) (POLYNOMIAL_ELEM_CTX s ctx)) \<and>
    (poly_length s y = 1 \<and> res = y \<longrightarrow>
       (let e = POLYNOMIAL_ELEM_CTX s ctx;
            s1 = with_scratch_elem L s e;
            snapshot = set_impl L s1 (Obj (sp s)) (Coeff y 0) e;
            s2 = store s1 (sp s) (Scalar (snd snapshot));
            divided = poly_div_scalar_impl L s2 res x (Obj (sp s)) e
        in result_of res (polynomial_div L s res x y ctx)
             = (fst snapshot OR fst divided, snd divided))) \<and>
    (poly_length s y \<noteq> 1 \<longrightarrow>
       (let e = POLYNOMIAL_ELEM_CTX s ctx;
            long = poly_divrem_impl L (with_scratch_poly s) res (sp s) x y e;
            q = fst (snd long);
            r = snd (snd long);
            z = gr_poly_is_zero L (snd (gr_poly_divrem L (with_scratch_poly s) res (sp s) x y e))
                  (sp s) e
        in fst (polynomial_div L s res x y ctx) = long_division_status (fst long) z \<and>
           coeffs (obj_at (snd (polynomial_div L s res x y ctx)) res) = q \<and>
           ((fst long = GR_SUCCESS \<longrightarrow> peq (coeffs (obj_at s x)) (padd (pmul q (coeffs (obj_at s y))) r)) \<and>
            (z = T_TRUE \<longrightarrow> peq r []) \<and>
            fst (polynomial_div L s res x y ctx) = GR_SUCCESS
            \<longrightarrow> peq (coeffs (obj_at s x))
                  (pmul (coeffs (obj_at (snd (polynomial_div L s res x y ctx)) res))
                     (coeffs (obj_at s y))))))"
proof -
  have long: "poly_length s y \<noteq> 1 \<longrightarrow>
       (let e = POLYNOMIAL_ELEM_CTX s ctx;
            long = poly_divrem_impl L (with_scratch_poly s) res (sp s) x y e;
            q = fst (snd long);
            r = snd (snd long);
            z = gr_poly_is_zero L (snd (gr_poly_divrem L (with_scratch_poly s) res (sp s) x y e))
                  (sp s) e
        in fst (polynomial_div L s res x y ctx) = long_division_status (fst long) z \<and>
           coeffs (obj_at (snd (polynomial_div L s res x y ctx)) res) = q \<and>
           ((fst long = GR_SUCCESS \<longrightarrow> peq (coeffs (obj_at s x)) (padd (pmul q (coeffs (obj_at s y))) r)) \<and>
            (z = T_TRUE \<longrightarrow> peq r []) \<and>
            fst (polynomial_div L s res x y ctx) = GR_SUCCESS
            \<longrightarrow> peq (coeffs (obj_at s x))
                  (pmul (coeffs (obj_at (snd (polynomial_div L s res x y ctx)) res))
                     (coeffs (obj_at s y)))))"
  proof
    assume ny: "poly_length s y \<noteq> 1"
    let ?e = "POLYNOMIAL_ELEM_CTX s ctx"
    let ?long = "poly_divrem_impl L (with_scratch_poly s) res (sp s) x y ?e"
    let ?z = "gr_poly_is_zero L (snd (gr_poly_divrem L (with_scratch_poly s) res (sp s) x y ?e)) (sp s) ?e"
    have st: "fst (polynomial_div L s res x y ctx) = long_division_status (fst ?long) ?z"
      using div_long_status [OF ny] .
    have q: "coeffs (obj_at (snd (polynomial_div L s res x y ctx)) res) = fst (snd ?long)"
      using div_long_quotient [OF ny live] .
    have success: "long_division_status (fst ?long) ?z = GR_SUCCESS \<Longrightarrow> fst ?long = GR_SUCCESS \<and> ?z = T_TRUE"
      by (simp add: long_division_status_def GR_SUCCESS_def GR_DOMAIN_def GR_UNABLE_def
          split: if_splits)
    have law: "(fst ?long = GR_SUCCESS \<longrightarrow>
                  peq (coeffs (obj_at s x)) (padd (pmul (fst (snd ?long)) (coeffs (obj_at s y))) (snd (snd ?long)))) \<and>
            (?z = T_TRUE \<longrightarrow> peq (snd (snd ?long)) []) \<and>
            fst (polynomial_div L s res x y ctx) = GR_SUCCESS
            \<longrightarrow> peq (coeffs (obj_at s x))
                  (pmul (coeffs (obj_at (snd (polynomial_div L s res x y ctx)) res))
                     (coeffs (obj_at s y)))"
      unfolding st q using success division_law by blast
    from st q law show "let e = POLYNOMIAL_ELEM_CTX s ctx;
            long = poly_divrem_impl L (with_scratch_poly s) res (sp s) x y e;
            q = fst (snd long);
            r = snd (snd long);
            z = gr_poly_is_zero L (snd (gr_poly_divrem L (with_scratch_poly s) res (sp s) x y e))
                  (sp s) e
        in fst (polynomial_div L s res x y ctx) = long_division_status (fst long) z \<and>
           coeffs (obj_at (snd (polynomial_div L s res x y ctx)) res) = q \<and>
           ((fst long = GR_SUCCESS \<longrightarrow> peq (coeffs (obj_at s x)) (padd (pmul q (coeffs (obj_at s y))) r)) \<and>
            (z = T_TRUE \<longrightarrow> peq r []) \<and>
            fst (polynomial_div L s res x y ctx) = GR_SUCCESS
            \<longrightarrow> peq (coeffs (obj_at s x))
                  (pmul (coeffs (obj_at (snd (polynomial_div L s res x y ctx)) res))
                     (coeffs (obj_at s y))))"
      unfolding Let_def by blast
  qed
  from div_scalar_plain div_scalar_aliased [OF live] long
  show ?thesis by blast
qed

text \<open>
  Over the integers: \<open>(4 + 6 x) / 2\<close>, with \<open>res\<close> apart from \<open>y\<close> and with \<open>res\<close> being \<open>y\<close>;
  \<open>(x\<^sup>2 - 1) / (x + 1) = x - 1\<close>; and \<open>(x\<^sup>2 + 1) / (x + 1)\<close>, which leaves the remainder 2.
\<close>

lemmas run_div_defs =
  polynomial_div_def gr_poly_div_scalar_def gr_poly_divrem_def gr_poly_is_zero_def gr_set_def
  gr_poly_init_def gr_poly_clear_def GR_TMP_INIT_def GR_TMP_CLEAR_def end_local_def
  with_scratch_elem_def long_division_status_def peq_def

theorem polynomial_div_outcome_witness:
  "(0::nat) < sp (machine_of [Seq [] 0, Scalar 7, mk_poly [4, 6], mk_poly [2], mk_poly [- 1, 0, 1],
                    mk_poly [1, 1], mk_poly [1, 0, 1]]) \<and>
   result_of 0 (polynomial_div ZZ
     (machine_of [Seq [] 0, Scalar 7, mk_poly [4, 6], mk_poly [2], mk_poly [- 1, 0, 1],
        mk_poly [1, 1], mk_poly [1, 0, 1]]) 0 2 3 2) = (GR_SUCCESS, [2, 3]) \<and>
   result_of 3 (polynomial_div ZZ
     (machine_of [Seq [] 0, Scalar 7, mk_poly [4, 6], mk_poly [2], mk_poly [- 1, 0, 1],
        mk_poly [1, 1], mk_poly [1, 0, 1]]) 3 2 3 2) = (GR_SUCCESS, [2, 3]) \<and>
   result_of 0 (polynomial_div ZZ
     (machine_of [Seq [] 0, Scalar 7, mk_poly [4, 6], mk_poly [2], mk_poly [- 1, 0, 1],
        mk_poly [1, 1], mk_poly [1, 0, 1]]) 0 4 5 2) = (GR_SUCCESS, [- 1, 1]) \<and>
   peq [- 1, 0, 1] (pmul [- 1, 1] [1, 1 :: int]) \<and>
   fst (polynomial_div ZZ
     (machine_of [Seq [] 0, Scalar 7, mk_poly [4, 6], mk_poly [2], mk_poly [- 1, 0, 1],
        mk_poly [1, 1], mk_poly [1, 0, 1]]) 0 6 5 2) = GR_DOMAIN"
proof -
  let ?s = "machine_of [Seq [] 0, Scalar 7, mk_poly [4, 6], mk_poly [2], mk_poly [- 1, 0, 1],
              mk_poly [1, 1], mk_poly [1, 0, 1]]"
  have live0: "0 < sp ?s" and live3: "3 < sp ?s" and mark: "sp ?s = 7"
    by (simp_all add: machine_of_def)
  have e: "POLYNOMIAL_ELEM_CTX ?s 2 = 0"
    by (simp add: example_defs)
  have scalar: "poly_length ?s 3 = 1"
    by (simp add: example_defs)
  have long: "poly_length ?s 5 \<noteq> 1"
    by (simp add: example_defs)
  have plain: "result_of 0 (gr_poly_div_scalar ZZ ?s 0 2 (Coeff 3 0) 0) = (GR_SUCCESS, [2, 3])"
    by (simp add: run_div_defs run_defs ZZ_defs example_defs)
  have snapshot: "set_impl ZZ (with_scratch_elem ZZ ?s 0) (Obj 7) (Coeff 3 0) 0 = (GR_SUCCESS, 2)"
    by (simp add: run_div_defs run_defs ZZ_defs example_defs)
  have divided: "poly_div_scalar_impl ZZ (store (with_scratch_elem ZZ ?s 0) 7 (Scalar 2)) 3 2 (Obj 7) 0
                   = (GR_SUCCESS, [2, 3])"
    by (simp add: run_div_defs run_defs ZZ_defs example_defs)
  have exact: "poly_divrem_impl ZZ (with_scratch_poly ?s) 0 7 4 5 0 = (GR_SUCCESS, [- 1, 1], [])"
    by (simp add: run_div_defs run_defs ZZ_defs example_defs)
  have exact_zero: "gr_poly_is_zero ZZ (snd (gr_poly_divrem ZZ (with_scratch_poly ?s) 0 7 4 5 0)) 7 0 = T_TRUE"
    by (simp add: run_div_defs run_defs ZZ_defs example_defs)
  have inexact: "poly_divrem_impl ZZ (with_scratch_poly ?s) 0 7 6 5 0 = (GR_SUCCESS, [- 1, 1], [2])"
    by (simp add: run_div_defs run_defs ZZ_defs example_defs)
  have inexact_zero: "gr_poly_is_zero ZZ (snd (gr_poly_divrem ZZ (with_scratch_poly ?s) 0 7 6 5 0)) 7 0 = T_FALSE"
    by (simp add: run_div_defs run_defs ZZ_defs example_defs)
  have x4: "coeffs (obj_at ?s 4) = [- 1, 0, 1]" and y5: "coeffs (obj_at ?s 5) = [1, 1]"
    by (simp_all add: machine_of_def)
  have contract: "peq [- 1, 0, 1] (padd (pmul [- 1, 1] [1, 1 :: int]) [])" and zero: "peq ([] :: int list) []"
    by (simp_all add: peq_def)
  from polynomial_div_outcome [OF live0, of 3 ZZ 2 2] scalar plain e
  have a: "result_of 0 (polynomial_div ZZ ?s 0 2 3 2) = (GR_SUCCESS, [2, 3])"
    by simp
  from polynomial_div_outcome [OF live3, of 3 ZZ 2 2] scalar snapshot divided e mark
  have b: "result_of 3 (polynomial_div ZZ ?s 3 2 3 2) = (GR_SUCCESS, [2, 3])"
    by (simp add: Let_def GR_SUCCESS_def)
  from polynomial_div_outcome [OF live0, of 5 ZZ 4 2] long exact exact_zero e mark x4 y5 contract zero
  have c: "result_of 0 (polynomial_div ZZ ?s 0 4 5 2) = (GR_SUCCESS, [- 1, 1]) \<and>
           peq [- 1, 0, 1] (pmul [- 1, 1] [1, 1 :: int])"
    by (simp add: Let_def long_division_status_def result_of_def)
  from polynomial_div_outcome [OF live0, of 5 ZZ 6 2] long inexact inexact_zero e mark
  have d: "fst (polynomial_div ZZ ?s 0 6 5 2) = GR_DOMAIN"
    by (simp add: Let_def long_division_status_def)
  from live0 a b c d show ?thesis
    by blast
qed

text \<open>
  Counterexample to C1 as stated, the zero divisor (length 0, so not 1): the long division is
  refused with Domain-error, the remainder is still the zero polynomial it was initialised
  to, which is proved zero, and yet the status is Domain-error, not Success.
\<close>

theorem polynomial_div_zero_divisor:
  "poly_length (machine_of [Seq [] 0, Scalar 7, mk_poly [1, 2], Seq [] 0]) 3 \<noteq> 1 \<and>
   gr_poly_is_zero ZZ
     (snd (gr_poly_divrem ZZ (with_scratch_poly (machine_of [Seq [] 0, Scalar 7, mk_poly [1, 2], Seq [] 0]))
             0 4 2 3 0)) 4 0 = T_TRUE \<and>
   fst (polynomial_div ZZ (machine_of [Seq [] 0, Scalar 7, mk_poly [1, 2], Seq [] 0]) 0 2 3 2) = GR_DOMAIN \<and>
   fst (polynomial_div ZZ (machine_of [Seq [] 0, Scalar 7, mk_poly [1, 2], Seq [] 0]) 0 2 3 2) \<noteq> GR_SUCCESS"
  by (simp add: run_div_defs run_defs ZZ_defs example_defs)

section \<open>Constructing the method table\<close>

lemma tab_init_poly [simp]: "gr_method_tab_init gr_poly_methods_input = gr_poly_methods"
  by (rule ext) (simp add: gr_method_tab_init_def gr_poly_methods_def)

lemma ctx_fields_globals [simp]:
  "methods_initialized (init_ctx_fields g ctx base) = methods_initialized g"
  "methods_table (init_ctx_fields g ctx base) = methods_table g"
  "builds (init_ctx_fields g ctx base) = builds g"
  by (simp_all add: init_ctx_fields_def)

lemma first_call:
  "methods_initialized g = 0 \<Longrightarrow>
   methods_initialized (gr_ctx_init_gr_poly g ctx base) = 1 \<and>
   methods_table (gr_ctx_init_gr_poly g ctx base) = gr_poly_methods \<and>
   builds (gr_ctx_init_gr_poly g ctx base) = Suc (builds g)"
  by (simp add: gr_ctx_init_gr_poly_def Let_def set_flag_def build_table_def)

lemma later_call:
  "methods_initialized g \<noteq> 0 \<Longrightarrow>
   methods_initialized (gr_ctx_init_gr_poly g ctx base) = methods_initialized g \<and>
   methods_table (gr_ctx_init_gr_poly g ctx base) = methods_table g \<and>
   builds (gr_ctx_init_gr_poly g ctx base) = builds g"
  by (simp add: gr_ctx_init_gr_poly_def Let_def)

lemma later_calls:
  "methods_initialized g = 1 \<Longrightarrow>
   methods_initialized (construct_all g calls) = 1 \<and>
   methods_table (construct_all g calls) = methods_table g \<and>
   builds (construct_all g calls) = builds g"
proof (induction calls arbitrary: g)
  case Nil
  then show ?case by simp
next
  case (Cons c cs)
  from Cons.prems later_call [of g "fst c" "snd c"]
  have "methods_initialized (gr_ctx_init_gr_poly g (fst c) (snd c)) = 1"
    and "methods_table (gr_ctx_init_gr_poly g (fst c) (snd c)) = methods_table g"
    and "builds (gr_ctx_init_gr_poly g (fst c) (snd c)) = builds g"
    by simp_all
  with Cons.IH [of "gr_ctx_init_gr_poly g (fst c) (snd c)"] show ?case
    by simp
qed

lemma built_once_in_sequence:
  assumes "calls \<noteq> []"
  shows "builds (construct_all (initial_process m) calls) = 1 \<and>
         methods_initialized (construct_all (initial_process m) calls) = 1 \<and>
         methods_table (construct_all (initial_process m) calls) = gr_poly_methods"
proof -
  from assms obtain c cs where calls: "calls = c # cs"
    by (cases calls) auto
  let ?g = "gr_ctx_init_gr_poly (initial_process m) (fst c) (snd c)"
  have "methods_initialized (initial_process m) = 0" and "builds (initial_process m) = 0"
    by (simp_all add: initial_process_def)
  with first_call [of "initial_process m" "fst c" "snd c"]
  have g: "methods_initialized ?g = 1" "methods_table ?g = gr_poly_methods" "builds ?g = 1"
    by simp_all
  from later_calls [OF g(1), of cs] g show ?thesis
    by (simp add: calls)
qed

lemma step_frozen:
  assumes "methods_initialized g = 1" and "methods_table g = gr_poly_methods"
  shows "methods_initialized (snd (thread_step p a g)) = 1 \<and>
         methods_table (snd (thread_step p a g)) = gr_poly_methods"
  using assms by (cases p) (simp_all add: build_table_def set_flag_def)

lemma run_frozen:
  "methods_initialized (snd cfg) = 1 \<Longrightarrow> methods_table (snd cfg) = gr_poly_methods \<Longrightarrow>
   methods_initialized (snd (run args sched cfg)) = 1 \<and>
   methods_table (snd (run args sched cfg)) = gr_poly_methods"
proof (induction sched arbitrary: cfg)
  case Nil
  then show ?case by simp
next
  case (Cons t ts)
  from step_frozen [OF Cons.prems, of "fst cfg t" "args t"]
  have "methods_initialized (snd (step args t cfg)) = 1"
    and "methods_table (snd (step args t cfg)) = gr_poly_methods"
    by (simp_all add: step_def Let_def)
  from Cons.IH [OF this] show ?case
    by simp
qed

lemma one_thread_alone:
  "pcs t = Entered \<Longrightarrow>
   snd (run args [t, t, t, t] (pcs, g)) = gr_ctx_init_gr_poly g (fst (args t)) (snd (args t)) \<and>
   fst (run args [t, t, t, t] (pcs, g)) t = Returned"
  by (simp add: step_def Let_def gr_ctx_init_gr_poly_def set_flag_def build_table_def)

text \<open>
  Claim C9, as amended. When contexts are constructed one after another, the shared
  method table is constructed exactly once: the first construction builds it and sets
  the flag, and a construction that finds the flag set leaves the flag, the table and
  the number of builds as they are. Once the flag is set and the table built, no
  interleaving of the statements of further constructions, by any number of threads,
  changes the flag or the contents of the table.
\<close>

theorem table_built_once_in_sequence:
  "(calls \<noteq> [] \<longrightarrow>
      builds (construct_all (initial_process m) calls) = 1 \<and>
      methods_initialized (construct_all (initial_process m) calls) = 1 \<and>
      methods_table (construct_all (initial_process m) calls) = gr_poly_methods) \<and>
   (methods_initialized g \<noteq> 0 \<longrightarrow>
      methods_initialized (gr_ctx_init_gr_poly g ctx base) = methods_initialized g \<and>
      methods_table (gr_ctx_init_gr_poly g ctx base) = methods_table g \<and>
      builds (gr_ctx_init_gr_poly g ctx base) = builds g) \<and>
   (methods_initialized g = 1 \<and> methods_table g = gr_poly_methods \<longrightarrow>
      methods_initialized (snd (run args sched (pcs, g))) = 1 \<and>
      methods_table (snd (run args sched (pcs, g))) = gr_poly_methods)"
  using built_once_in_sequence [of calls m] later_call [of g ctx base]
    run_frozen [of "(pcs, g)" args sched]
  by simp

text \<open>
  Three contexts in a row build the table once; so do two; and two threads that construct
  contexts after a first construction has finished leave the table as it is.
\<close>

theorem table_built_once_in_sequence_witness:
  "builds (construct_all (initial_process (machine_of [])) [(2, 0), (3, 0), (4, 2)]) = 1 \<and>
   methods_table (construct_all (initial_process (machine_of [])) [(2, 0), (3, 0), (4, 2)])
     = gr_poly_methods \<and>
   builds (gr_ctx_init_gr_poly (gr_ctx_init_gr_poly (initial_process (machine_of [])) 2 0) 3 0) = 1 \<and>
   methods_table
     (snd (run (\<lambda>t. (t + 2, 0)) [0, 2, 0, 2, 2, 0, 0, 2]
        (\<lambda>t. Entered, gr_ctx_init_gr_poly (initial_process (machine_of [])) 5 0)))
     = gr_poly_methods"
proof -
  let ?g0 = "initial_process (machine_of [])"
  let ?g1 = "gr_ctx_init_gr_poly ?g0 2 0"
  let ?g5 = "gr_ctx_init_gr_poly ?g0 5 0"
  have calls: "[(2, 0), (3, 0), (4, 2)] \<noteq> ([] :: (addr \<times> addr) list)"
    by simp
  have g1: "methods_initialized ?g1 \<noteq> 0" "builds ?g1 = 1"
    by (simp_all add: gr_ctx_init_gr_poly_def initial_process_def Let_def set_flag_def build_table_def)
  have g5: "methods_initialized ?g5 = 1 \<and> methods_table ?g5 = gr_poly_methods"
    by (simp add: gr_ctx_init_gr_poly_def initial_process_def Let_def set_flag_def build_table_def)
  from table_built_once_in_sequence [of "[(2, 0), (3, 0), (4, 2)]" "machine_of []" ?g1 3 0]
    table_built_once_in_sequence [of "[]" "machine_of []" ?g5 5 0 "\<lambda>t. (t + 2, 0)"
      "[0, 2, 0, 2, 2, 0, 0, 2]" "\<lambda>t. Entered"]
    calls g1 g5
  show ?thesis
    by simp
qed

text \<open>
  Counterexample to C9 as stated: two threads construct their first contexts at the same
  time and take turns statement by statement. Both read the flag as 0 before either has
  set it, so both build the table: it is constructed twice, and the guard has not kept
  the two constructions apart.
\<close>

theorem concurrent_first_use_builds_twice:
  "builds (snd (run (\<lambda>t. (t + 2, 0)) [0, 1, 0, 1, 0, 1, 0, 1]
            (\<lambda>t. Entered, initial_process (machine_of [])))) = 2 \<and>
   fst (run (\<lambda>t. (t + 2, 0)) [0, 1, 0, 1, 0, 1, 0, 1]
            (\<lambda>t. Entered, initial_process (machine_of []))) 0 = Returned \<and>
   fst (run (\<lambda>t. (t + 2, 0)) [0, 1, 0, 1, 0, 1, 0, 1]
            (\<lambda>t. Entered, initial_process (machine_of []))) 1 = Returned"
  by (simp add: step_def Let_def initial_process_def build_table_def set_flag_def)

end
